theory Spec2Isabelle
  imports Complex_Main
begin

section \<open>The undo/redo history hook (useCanvasHistory)\<close>

text \<open>
  The hook keeps two React state cells, \<open>history\<close> (past snapshots, oldest first) and
  \<open>redoStack\<close> (future snapshots). A snapshot is whatever the caller hands in, so the
  model is polymorphic in it. Each callback becomes a function from the hook state to the
  new hook state; \<open>undo\<close> and \<open>redo\<close> also return a value, where \<open>None\<close> is the
  \<open>null\<close> of the source.
\<close>

definition HISTORY_LIMIT :: nat where
  "HISTORY_LIMIT = 15"

record 'a canvas_history =
  history :: "'a list"
  redoStack :: "'a list"

definition initial_history :: "'a canvas_history" where
  "initial_history = \<lparr>history = [], redoStack = []\<rparr>"

text \<open>
  \<open>recordState\<close>: append, then drop the first element once if the list got longer than
  the limit (\<open>shift()\<close>), and clear the redo stack.
\<close>

definition recordState :: "'a \<Rightarrow> 'a canvas_history \<Rightarrow> 'a canvas_history" where
  "recordState layers h =
     (let newHistory = history h @ [layers];
          newHistory = (if length newHistory > HISTORY_LIMIT then tl newHistory else newHistory)
      in h\<lparr>history := newHistory, redoStack := []\<rparr>)"

definition undo :: "'a \<Rightarrow> 'a canvas_history \<Rightarrow> 'a option \<times> 'a canvas_history" where
  "undo currentLayers h =
     (if length (history h) = 0 then (None, h)
      else
        let previous = last (history h);
            newHistory = butlast (history h)
        in (Some previous,
            h\<lparr>redoStack := redoStack h @ [currentLayers], history := newHistory\<rparr>))"

definition redo :: "'a \<Rightarrow> 'a canvas_history \<Rightarrow> 'a option \<times> 'a canvas_history" where
  "redo currentLayers h =
     (if length (redoStack h) = 0 then (None, h)
      else
        let next = last (redoStack h);
            newRedo = butlast (redoStack h)
        in (Some next,
            h\<lparr>history := history h @ [currentLayers], redoStack := newRedo\<rparr>))"

definition canUndo :: "'a canvas_history \<Rightarrow> bool" where
  "canUndo h = (length (history h) > 0)"

definition canRedo :: "'a canvas_history \<Rightarrow> bool" where
  "canRedo h = (length (redoStack h) > 0)"

section \<open>Layers and the application state (App.tsx)\<close>

text \<open>
  A JavaScript \<open>number\<close> is modelled as a real: the theory is about the arithmetic the
  handlers write down, not about IEEE rounding, NaN or the infinities. The one place where
  the source can divide by zero on a finite input is written out as a branch of its own.
  The field \<open>id\<close> of the source is \<open>layerId\<close> here.
\<close>

record CanvasLayer =
  layerId :: string
  url :: string
  x :: real
  y :: real
  scale :: real
  rotation :: real
  zIndex :: real
  aspectRatio :: real
  originalWidth :: real
  originalHeight :: real

text \<open>
  The pointer-up handler compares two arrays with \<open>!==\<close>, that is by identity, so an
  array is its elements together with the identity of the array object. The handlers never
  mutate a layer array in place; every \<open>map\<close>, \<open>filter\<close> or spread allocates a new
  one.
\<close>

record layer_array =
  ident :: nat
  elems :: "CanvasLayer list"

datatype operation = Op_none | Op_drag | Op_resize

datatype TabType = GENERATE | EDIT | HISTORY

datatype WorkflowStage = Stage_idle | Stage_analyzing | Stage_suggesting | Stage_executing
  | Stage_finished

record AppError =
  errorId :: string
  message :: string
  details :: string

record interaction_start =
  startX :: real
  startY :: real
  initialX :: real
  initialY :: real
  initialScale :: real
  initialDistance :: real
  initialLayers :: layer_array

record app_state =
  layers :: layer_array
  selectedLayerId :: "string option"
  hist :: "layer_array canvas_history"
  activeOperation :: operation
  interactionStartRef :: interaction_start
  activeTab :: TabType
  stage :: WorkflowStage
  appError :: "AppError option"
  nextIdent :: nat

definition CANVAS_SIZE :: real where
  "CANVAS_SIZE = 600"

definition MIN_VISIBLE_PX :: real where
  "MIN_VISIBLE_PX = 40"

text \<open>The state of a freshly mounted component; array identity 0 is the initial \<open>[]\<close>.\<close>

definition initial_state :: app_state where
  "initial_state =
     \<lparr>layers = \<lparr>ident = 0, elems = []\<rparr>,
      selectedLayerId = None,
      hist = initial_history,
      activeOperation = Op_none,
      interactionStartRef =
        \<lparr>startX = 0, startY = 0, initialX = 0, initialY = 0, initialScale = 1,
         initialDistance = 0, initialLayers = \<lparr>ident = 1, elems = []\<rparr>\<rparr>,
      activeTab = GENERATE,
      stage = Stage_idle,
      appError = None,
      nextIdent = 2\<rparr>"

text \<open>\<open>setLayers\<close> with an array that the call site has just built.\<close>

definition setLayersNew :: "CanvasLayer list \<Rightarrow> app_state \<Rightarrow> app_state" where
  "setLayersNew ls s =
     s\<lparr>layers := \<lparr>ident = nextIdent s, elems = ls\<rparr>, nextIdent := Suc (nextIdent s)\<rparr>"

text \<open>
  \<open>!selectedLayerId\<close> is true for \<open>null\<close> and for the empty string; \<open>truthyId\<close> gives
  the id when the test lets the handler go on.
\<close>

definition truthyId :: "string option \<Rightarrow> string option" where
  "truthyId v = (case v of None \<Rightarrow> None | Some sid \<Rightarrow> if sid = [] then None else Some sid)"

subsection \<open>Undo and redo buttons\<close>

definition handleUndo :: "app_state \<Rightarrow> app_state" where
  "handleUndo s =
     (case undo (layers s) (hist s) of
        (None, h) \<Rightarrow> s\<lparr>hist := h\<rparr>
      | (Some prev, h) \<Rightarrow>
          let s1 = s\<lparr>hist := h, layers := prev\<rparr>
          in (case truthyId (selectedLayerId s) of
                None \<Rightarrow> s1
              | Some sid \<Rightarrow>
                  if find (\<lambda>l. layerId l = sid) (elems prev) = None
                  then s1\<lparr>selectedLayerId := None\<rparr> else s1))"

definition handleRedo :: "app_state \<Rightarrow> app_state" where
  "handleRedo s =
     (case redo (layers s) (hist s) of
        (None, h) \<Rightarrow> s\<lparr>hist := h\<rparr>
      | (Some next, h) \<Rightarrow> s\<lparr>hist := h, layers := next\<rparr>)"

subsection \<open>Pointer sessions: drag and resize\<close>

record PointerEvent =
  clientX :: real
  clientY :: real

text \<open>
  The bounding rectangle of the canvas element, as far as the handlers read it;
  \<open>None\<close> is \<open>canvasRef.current\<close> being \<open>null\<close>.
\<close>

record DOMRect =
  rectLeft :: real
  rectTop :: real

definition getCanvasCoordinates :: "DOMRect option \<Rightarrow> PointerEvent \<Rightarrow> real \<times> real" where
  "getCanvasCoordinates canvasRef e =
     (case canvasRef of
        None \<Rightarrow> (0, 0)
      | Some rect \<Rightarrow> (clientX e - rectLeft rect, clientY e - rectTop rect))"

definition handleLayerPointerDown :: "PointerEvent \<Rightarrow> CanvasLayer \<Rightarrow> app_state \<Rightarrow> app_state" where
  "handleLayerPointerDown e layer s =
     s\<lparr>selectedLayerId := Some (layerId layer),
       activeOperation := Op_drag,
       interactionStartRef :=
         \<lparr>startX = clientX e, startY = clientY e,
          initialX = x layer, initialY = y layer,
          initialScale = scale layer,
          initialDistance = 0,
          initialLayers = layers s\<rparr>\<rparr>"

definition handleResizePointerDown ::
  "DOMRect option \<Rightarrow> PointerEvent \<Rightarrow> CanvasLayer \<Rightarrow> app_state \<Rightarrow> app_state" where
  "handleResizePointerDown canvasRef e layer s =
     (let coords = getCanvasCoordinates canvasRef e;
          dx = fst coords - x layer;
          dy = snd coords - y layer;
          dist = sqrt (dx * dx + dy * dy)
      in s\<lparr>selectedLayerId := Some (layerId layer),
           activeOperation := Op_resize,
           interactionStartRef :=
             \<lparr>startX = clientX e, startY = clientY e,
              initialX = x layer, initialY = y layer,
              initialScale = scale layer,
              initialDistance = dist,
              initialLayers = layers s\<rparr>\<rparr>)"

text \<open>The body of the \<open>map\<close> callback of the drag branch.\<close>

definition dragLayer :: "interaction_start \<Rightarrow> real \<Rightarrow> real \<Rightarrow> CanvasLayer \<Rightarrow> CanvasLayer" where
  "dragLayer start dx dy layer =
     (let newX = initialX start + dx;
          newY = initialY start + dy;
          currentWidth = originalWidth layer * scale layer;
          currentHeight = originalHeight layer * scale layer;
          maxX = CANVAS_SIZE - MIN_VISIBLE_PX;
          minX = MIN_VISIBLE_PX - currentWidth;
          newX = max minX (min newX maxX);
          maxY = CANVAS_SIZE - MIN_VISIBLE_PX;
          minY = MIN_VISIBLE_PX - currentHeight;
          newY = max minY (min newY maxY)
      in layer\<lparr>x := newX, y := newY\<rparr>)"

definition handleCanvasPointerMove ::
  "DOMRect option \<Rightarrow> PointerEvent \<Rightarrow> app_state \<Rightarrow> app_state" where
  "handleCanvasPointerMove canvasRef e s =
     (case truthyId (selectedLayerId s) of
        None \<Rightarrow> s
      | Some sid \<Rightarrow>
          if activeOperation s = Op_drag then
            let dx = clientX e - startX (interactionStartRef s);
                dy = clientY e - startY (interactionStartRef s)
            in setLayersNew
                 (map (\<lambda>layer. if layerId layer = sid
                                then dragLayer (interactionStartRef s) dx dy layer
                                else layer)
                      (elems (layers s))) s
          else if activeOperation s = Op_resize then
            (case find (\<lambda>l. layerId l = sid) (elems (layers s)) of
               None \<Rightarrow> s
             | Some selectedLayer \<Rightarrow>
                 let coords = getCanvasCoordinates canvasRef e;
                     dx = fst coords - x selectedLayer;
                     dy = snd coords - y selectedLayer;
                     currentDistance = sqrt (dx * dx + dy * dy)
                 in if initialDistance (interactionStartRef s) > 0 then
                      let newScale = initialScale (interactionStartRef s) *
                                       (currentDistance / initialDistance (interactionStartRef s));
                          safeScale = max (1 / 10) newScale
                      in setLayersNew
                           (map (\<lambda>layer. if layerId layer = sid
                                          then layer\<lparr>scale := safeScale\<rparr>
                                          else layer)
                                (elems (layers s))) s
                    else s)
          else s)"

definition handleCanvasPointerUp :: "app_state \<Rightarrow> app_state" where
  "handleCanvasPointerUp s =
     (let s1 = (if activeOperation s \<noteq> Op_none then
                  let initialLayers' = initialLayers (interactionStartRef s)
                  in if ident initialLayers' \<noteq> ident (layers s)
                     then s\<lparr>hist := recordState initialLayers' (hist s)\<rparr>
                     else s
                else s)
      in s1\<lparr>activeOperation := Op_none\<rparr>)"

text \<open>
  A run of pointer-move events, each with the canvas rectangle it was measured against,
  handled in order.
\<close>

definition runMoves :: "(DOMRect option \<times> PointerEvent) list \<Rightarrow> app_state \<Rightarrow> app_state" where
  "runMoves ms s = fold (\<lambda>(canvasRef, e). handleCanvasPointerMove canvasRef e) ms s"

text \<open>
  The value \<open>safeScale\<close> of the resize branch, for the start record, the canvas
  coordinates of the pointer and the layer found under the selected id.
\<close>

definition resizeScale :: "interaction_start \<Rightarrow> real \<times> real \<Rightarrow> CanvasLayer \<Rightarrow> real" where
  "resizeScale st coords sel =
     max (1 / 10)
       (initialScale st *
          (sqrt ((fst coords - x sel) * (fst coords - x sel) +
                 (snd coords - y sel) * (snd coords - y sel)) / initialDistance st))"

subsection \<open>Removing and reordering layers\<close>

definition removeLayer :: "string \<Rightarrow> app_state \<Rightarrow> app_state" where
  "removeLayer i s =
     (let s1 = s\<lparr>hist := recordState (layers s) (hist s)\<rparr>;
          s2 = setLayersNew (filter (\<lambda>l. layerId l \<noteq> i) (elems (layers s1))) s1
      in if selectedLayerId s = Some i then s2\<lparr>selectedLayerId := None\<rparr> else s2)"

text \<open>\<open>findIndex\<close> of JavaScript arrays; \<open>None\<close> is the result \<open>-1\<close>.\<close>

fun findIndex :: "('a \<Rightarrow> bool) \<Rightarrow> 'a list \<Rightarrow> nat option" where
  "findIndex P [] = None"
| "findIndex P (a # as) = (if P a then Some 0 else map_option Suc (findIndex P as))"

datatype direction = Up | Down

text \<open>The final \<open>map((l, idx) => ({...l, zIndex: idx + 1}))\<close> of \<open>reorderLayer\<close>.\<close>

definition renumber :: "CanvasLayer list \<Rightarrow> CanvasLayer list" where
  "renumber ls = map (\<lambda>(idx, l). l\<lparr>zIndex := real idx + 1\<rparr>) (enumerate 0 ls)"

definition reorderLayer :: "string \<Rightarrow> direction \<Rightarrow> app_state \<Rightarrow> app_state" where
  "reorderLayer i dir s =
     (let s1 = s\<lparr>hist := recordState (layers s) (hist s)\<rparr>;
          prev = elems (layers s1)
      in case findIndex (\<lambda>l. layerId l = i) prev of
           None \<Rightarrow> s1
         | Some index \<Rightarrow>
             let newLayers =
                   (if dir = Up \<and> int index < int (length prev) - 1
                    then prev[index := prev ! (index + 1), index + 1 := prev ! index]
                    else if dir = Down \<and> index > 0
                    then prev[index := prev ! (index - 1), index - 1 := prev ! index]
                    else prev)
             in setLayersNew (renumber newLayers) s1)"

subsection \<open>Adding an image asset\<close>

text \<open>
  \<open>handleFileChange\<close> records the current layers when the input has a file list; the
  argument says whether \<open>e.target.files\<close> is non-null. Each chosen file is then read and
  decoded asynchronously, and \<open>imageOnload\<close> is the \<open>img.onload\<close> callback of one of
  them: \<open>imgWidth\<close> and \<open>imgHeight\<close> are \<open>img.width\<close> and \<open>img.height\<close> (unsigned
  integers in the DOM), \<open>random1\<close> and \<open>random2\<close> the two values of \<open>Math.random()\<close>
  used for the jitter, \<open>newId\<close> the random identifier.

  \<open>maxDim / Math.max(img.width, img.height)\<close> is \<open>Infinity\<close> when both are zero, and
  \<open>Math.min(1, Infinity)\<close> is 1; that case is the first branch of \<open>scale'\<close>. The field
  \<open>aspectRatio\<close> is not finite in the source when \<open>img.height\<close> is zero; no handler
  reads it.
\<close>

definition handleFileChange :: "bool \<Rightarrow> app_state \<Rightarrow> app_state" where
  "handleFileChange hasFiles s =
     (if hasFiles then s\<lparr>hist := recordState (layers s) (hist s)\<rparr> else s)"

definition imageOnload ::
  "string \<Rightarrow> nat \<Rightarrow> nat \<Rightarrow> real \<Rightarrow> real \<Rightarrow> string \<Rightarrow> app_state \<Rightarrow> app_state" where
  "imageOnload dataUrl imgWidth imgHeight random1 random2 newId s =
     (let maxDim = 250;
          scale' = (if max imgWidth imgHeight = 0 then 1
                    else min 1 (maxDim / real (max imgWidth imgHeight)));
          jitterX = (random1 - 1 / 2) * 40;
          jitterY = (random2 - 1 / 2) * 40;
          prev = elems (layers s);
          s1 = setLayersNew
                 (prev @
                  [\<lparr>layerId = newId,
                    url = dataUrl,
                    x = (CANVAS_SIZE / 2) - ((real imgWidth * scale') / 2) + jitterX,
                    y = (CANVAS_SIZE / 2) - ((real imgHeight * scale') / 2) + jitterY,
                    scale = scale',
                    rotation = 0,
                    zIndex = real (length prev) + 1,
                    aspectRatio = real imgWidth / real imgHeight,
                    originalWidth = real imgWidth,
                    originalHeight = real imgHeight\<rparr>]) s
      in s1\<lparr>selectedLayerId := Some newId, activeTab := EDIT\<rparr>)"

subsection \<open>Loading a project file (projectManager.ts)\<close>

datatype json = JNull | JBool bool | JNumber real | JString string
  | JArray "json list" | JObject "(string \<times> json) list"

text \<open>
  Reading \<open>json.layers\<close>: a \<open>TypeError\<close> on \<open>null\<close>, the own property of an object
  (its members as parsed, a key listed once), and \<open>undefined\<close> on everything else.
\<close>

datatype js_lookup = Throws | Undefined | Value json

fun layersProp :: "json \<Rightarrow> js_lookup" where
  "layersProp JNull = Throws"
| "layersProp (JObject kvs) =
     (case map_of kvs ''layers'' of None \<Rightarrow> Undefined | Some v \<Rightarrow> Value v)"
| "layersProp _ = Undefined"

fun truthy :: "json \<Rightarrow> bool" where
  "truthy JNull = False"
| "truthy (JBool b) = b"
| "truthy (JNumber n) = (n \<noteq> 0)"
| "truthy (JString t) = (t \<noteq> [])"
| "truthy (JArray _) = True"
| "truthy (JObject _) = True"

fun isArray :: "json \<Rightarrow> bool" where
  "isArray (JArray _) = True"
| "isArray _ = False"

fun arrayItems :: "json \<Rightarrow> json list" where
  "arrayItems (JArray js) = js"
| "arrayItems _ = []"

datatype load_error = InvalidStructure | ParseFailure | ReadFailure

fun errorMessage :: "load_error \<Rightarrow> string" where
  "errorMessage InvalidStructure = ''Invalid .vmix project file structure''"
| "errorMessage ParseFailure = ''Failed to parse project file''"
| "errorMessage ReadFailure = ''Failed to read file''"

text \<open>
  What the \<open>FileReader\<close> delivers: \<open>onerror\<close>, or \<open>onload\<close> with the outcome of
  \<open>JSON.parse\<close> on the text (\<open>None\<close> when it throws).
\<close>

datatype read_outcome = ReaderError | Loaded "json option"

definition loadProject :: "read_outcome \<Rightarrow> load_error + json list" where
  "loadProject r =
     (case r of
        ReaderError \<Rightarrow> Inl ReadFailure
      | Loaded None \<Rightarrow> Inl ParseFailure
      | Loaded (Some parsed) \<Rightarrow>
          (case layersProp parsed of
             Throws \<Rightarrow> Inl ParseFailure
           | Undefined \<Rightarrow> Inl InvalidStructure
           | Value v \<Rightarrow>
               if truthy v \<and> isArray v then Inr (arrayItems v) else Inl InvalidStructure))"

text \<open>
  A layer-shaped record is an object with the fields of the interface \<open>CanvasLayer\<close> of
  types.ts, strings and numbers where the interface says so. \<open>loadProject\<close> hands its
  array on with a type assertion only, so this reading is where the typed model of the
  layers meets the untyped file.
\<close>

definition strField :: "(string \<times> json) list \<Rightarrow> string \<Rightarrow> string option" where
  "strField kvs k = (case map_of kvs k of Some (JString t) \<Rightarrow> Some t | _ \<Rightarrow> None)"

definition numField :: "(string \<times> json) list \<Rightarrow> string \<Rightarrow> real option" where
  "numField kvs k = (case map_of kvs k of Some (JNumber n) \<Rightarrow> Some n | _ \<Rightarrow> None)"

definition layerOfJson :: "json \<Rightarrow> CanvasLayer option" where
  "layerOfJson j =
     (case j of
        JObject kvs \<Rightarrow>
          if strField kvs ''id'' \<noteq> None \<and> strField kvs ''url'' \<noteq> None \<and>
             numField kvs ''x'' \<noteq> None \<and> numField kvs ''y'' \<noteq> None \<and>
             numField kvs ''scale'' \<noteq> None \<and> numField kvs ''rotation'' \<noteq> None \<and>
             numField kvs ''zIndex'' \<noteq> None \<and> numField kvs ''aspectRatio'' \<noteq> None \<and>
             numField kvs ''originalWidth'' \<noteq> None \<and> numField kvs ''originalHeight'' \<noteq> None
          then Some \<lparr>layerId = the (strField kvs ''id''),
                     url = the (strField kvs ''url''),
                     x = the (numField kvs ''x''),
                     y = the (numField kvs ''y''),
                     scale = the (numField kvs ''scale''),
                     rotation = the (numField kvs ''rotation''),
                     zIndex = the (numField kvs ''zIndex''),
                     aspectRatio = the (numField kvs ''aspectRatio''),
                     originalWidth = the (numField kvs ''originalWidth''),
                     originalHeight = the (numField kvs ''originalHeight'')\<rparr>
          else None
      | _ \<Rightarrow> None)"

definition layerShaped :: "json \<Rightarrow> bool" where
  "layerShaped j = (layerOfJson j \<noteq> None)"

text \<open>\<open>generateError\<close>; the argument \<open>rid\<close> is the random reference id.\<close>

definition generateError :: "string \<Rightarrow> string \<Rightarrow> string \<Rightarrow> app_state \<Rightarrow> app_state" where
  "generateError rid msg det s =
     s\<lparr>appError := Some \<lparr>errorId = rid, message = msg, details = det\<rparr>, stage := Stage_idle\<rparr>"

text \<open>
  Reading \<open>.id\<close> of an element of the loaded array, as \<open>layersProp\<close> reads
  \<open>.layers\<close>: a \<open>TypeError\<close> on \<open>null\<close>.
\<close>

fun idProp :: "json \<Rightarrow> js_lookup" where
  "idProp JNull = Throws"
| "idProp (JObject kvs) =
     (case map_of kvs ''id'' of None \<Rightarrow> Undefined | Some v \<Rightarrow> Value v)"
| "idProp _ = Undefined"

text \<open>
  The state after \<open>handleLoadProject\<close>. \<open>loadProject\<close> hands its array on unchecked
  and the handler stores it with \<open>setLayers\<close>, so the live layer array is typed only when
  every value of the file's array is layer-shaped. \<open>Typed s\<close> is that case, and the case
  that the layers were not touched. In \<open>Untyped arr sel s\<close> the live layer array is
  \<open>arr\<close>, the parsed values as they are; \<open>sel\<close> is what reading \<open>.id\<close> of its last
  element gave, which is the new selected id, or \<open>Throws\<close> when the read threw and the
  selection stayed as it was; and \<open>s\<close> holds the other state cells, its fields
  \<open>layers\<close> and \<open>selectedLayerId\<close> being those from before the load.
\<close>

datatype load_outcome = Typed app_state | Untyped "json list" js_lookup app_state

definition otherCells :: "load_outcome \<Rightarrow> app_state" where
  "otherCells out = (case out of Typed s \<Rightarrow> s | Untyped arr sel s \<Rightarrow> s)"

text \<open>
  \<open>handleLoadProject\<close> with the promise settled: \<open>file\<close> is \<open>None\<close> when no file was
  chosen. The \<open>then\<close> callback runs \<open>setLayers\<close> first and reads
  \<open>loadedLayers[loadedLayers.length - 1].id\<close> after it; when that read throws, the
  \<open>catch\<close> of the same promise chain reports the error, with the engine's message for
  the \<open>TypeError\<close>, here \<open>typeErrorMessage\<close>. Resetting the file input is not part of
  the state.
\<close>

definition handleLoadProject ::
  "read_outcome option \<Rightarrow> string \<Rightarrow> string \<Rightarrow> app_state \<Rightarrow> load_outcome" where
  "handleLoadProject file rid typeErrorMessage s =
     (case file of
        None \<Rightarrow> Typed s
      | Some r \<Rightarrow>
          let s1 = s\<lparr>hist := recordState (layers s) (hist s)\<rparr>
          in (case loadProject r of
                Inl err \<Rightarrow> Typed (generateError rid ''Load Failed'' (errorMessage err) s1)
              | Inr loaded \<Rightarrow>
                  (case those (map layerOfJson loaded) of
                     Some loadedLayers \<Rightarrow>
                       let s2 = setLayersNew loadedLayers s1
                       in Typed (if length loadedLayers > 0
                                 then s2\<lparr>selectedLayerId := Some (layerId (last loadedLayers))\<rparr>
                                 else s2)
                   | None \<Rightarrow>
                       (case idProp (last loaded) of
                          Throws \<Rightarrow>
                            Untyped loaded Throws
                              (generateError rid ''Load Failed'' typeErrorMessage s1)
                        | Undefined \<Rightarrow> Untyped loaded Undefined s1
                        | Value v \<Rightarrow> Untyped loaded (Value v) s1))))"

subsection \<open>Dense z-indices\<close>

text \<open>
  The z-indices of a layer array are dense and in array order when the layer at array
  index \<open>i\<close> has \<open>zIndex = i + 1\<close>.
\<close>

definition denseZ :: "CanvasLayer list \<Rightarrow> bool" where
  "denseZ ls = (map zIndex ls = map (\<lambda>i. real i + 1) [0..<length ls])"

section \<open>Example data\<close>

text \<open>A 100 by 100 image placed as a layer; used by the concrete instances below.\<close>

definition exampleLayer :: "string \<Rightarrow> real \<Rightarrow> real \<Rightarrow> real \<Rightarrow> real \<Rightarrow> CanvasLayer" where
  "exampleLayer i px py sc z =
     \<lparr>layerId = i, url = ''data:image/png;base64,'', x = px, y = py, scale = sc,
      rotation = 0, zIndex = z, aspectRatio = 1, originalWidth = 100, originalHeight = 100\<rparr>"

text \<open>A canvas holding that layer alone, with scale \<open>sc\<close>, and one holding two layers.\<close>

definition oneLayerState :: "real \<Rightarrow> app_state" where
  "oneLayerState sc =
     initial_state\<lparr>layers := \<lparr>ident = 2, elems = [exampleLayer ''a'' 100 100 sc 1]\<rparr>,
                    nextIdent := 3\<rparr>"


text \<open>
  A canvas whose single layer has the empty string as id, and one holding two layers under
  the same id, as a project file can supply them.
\<close>

definition emptyIdState :: app_state where
  "emptyIdState =
     initial_state\<lparr>layers := \<lparr>ident = 2, elems = [exampleLayer [] 100 100 1 1]\<rparr>,
                    nextIdent := 3\<rparr>"

definition twinLayerState :: app_state where
  "twinLayerState =
     initial_state\<lparr>layers := \<lparr>ident = 2, elems = [exampleLayer ''a'' 270 260 1 1,
                                                  exampleLayer ''a'' 300 300 1 2]\<rparr>,
                    nextIdent := 3\<rparr>"

text \<open>The canvas element with its top-left corner at the origin of the viewport.\<close>

definition canvasAtOrigin :: "DOMRect option" where
  "canvasAtOrigin = Some \<lparr>rectLeft = 0, rectTop = 0\<rparr>"

text \<open>
  A drag session just opened on the single layer, with the pointer pressed at screen
  position (700, 700).
\<close>

definition dragState :: "real \<Rightarrow> app_state" where
  "dragState sc =
     handleLayerPointerDown \<lparr>clientX = 700, clientY = 700\<rparr> (exampleLayer ''a'' 100 100 sc 1)
       (oneLayerState sc)"

text \<open>A canvas of three layers \<open>a\<close>, \<open>b\<close>, \<open>c\<close> with z-indices 1, 2, 3.\<close>

definition threeLayerState :: app_state where
  "threeLayerState =
     initial_state\<lparr>layers := \<lparr>ident = 2, elems = [exampleLayer ''a'' 100 100 1 1,
                                                  exampleLayer ''b'' 300 300 1 2,
                                                  exampleLayer ''c'' 200 200 1 3]\<rparr>,
                    nextIdent := 3\<rparr>"

section \<open>Properties of the history hook\<close>

lemma history_recordState:
  "history (recordState s h) =
     (if length (history h) < HISTORY_LIMIT then history h @ [s] else tl (history h @ [s]))"
  by (simp add: recordState_def Let_def not_less less_Suc_eq_le)

lemma history_recordState_drop:
  assumes "length (history h) \<le> HISTORY_LIMIT"
  shows "history (recordState s h) =
           drop (length (history h @ [s]) - HISTORY_LIMIT) (history h @ [s])"
proof (cases "length (history h) < HISTORY_LIMIT")
  case True
  then show ?thesis by (simp add: history_recordState)
next
  case False
  with assms have "length (history h) = HISTORY_LIMIT" by simp
  then have "length (history h @ [s]) - HISTORY_LIMIT = 1" by simp
  then show ?thesis using False
    by (simp only: history_recordState if_False drop_Suc drop_0 One_nat_def)
qed

lemma length_history_recordState:
  "length (history h) \<le> HISTORY_LIMIT \<Longrightarrow> length (history (recordState s h)) \<le> HISTORY_LIMIT"
  by (simp add: history_recordState)

lemma drop_append_short:
  "k \<le> length ys \<Longrightarrow> drop k ys @ xs = drop k (ys @ xs)"
  by simp

lemma fold_recordState_last:
  "length (history h) \<le> HISTORY_LIMIT \<Longrightarrow>
     length (history (fold recordState xs h)) \<le> HISTORY_LIMIT \<and>
     history (fold recordState xs h) =
       drop (length (history h @ xs) - HISTORY_LIMIT) (history h @ xs)"
proof (induction xs arbitrary: h)
  case Nil
  then show ?case by simp
next
  case (Cons a xs)
  let ?h = "recordState a h"
  have len: "length (history ?h) \<le> HISTORY_LIMIT"
    using Cons.prems by (rule length_history_recordState)
  have step: "history ?h = drop (length (history h @ [a]) - HISTORY_LIMIT) (history h @ [a])"
    using Cons.prems by (rule history_recordState_drop)
  have ih: "length (history (fold recordState xs ?h)) \<le> HISTORY_LIMIT \<and>
            history (fold recordState xs ?h) =
              drop (length (history ?h @ xs) - HISTORY_LIMIT) (history ?h @ xs)"
    using len by (rule Cons.IH)
  define k where "k = length (history h @ [a]) - HISTORY_LIMIT"
  have klen: "k \<le> length (history h @ [a])" by (simp add: k_def)
  have "drop (length (history ?h @ xs) - HISTORY_LIMIT) (history ?h @ xs) =
        drop (length (drop k (history h @ [a]) @ xs) - HISTORY_LIMIT) (drop k (history h @ [a]) @ xs)"
    by (simp only: step k_def)
  also have "drop k (history h @ [a]) @ xs = drop k ((history h @ [a]) @ xs)"
    using klen by (rule drop_append_short)
  also have "drop (length (drop k ((history h @ [a]) @ xs)) - HISTORY_LIMIT)
               (drop k ((history h @ [a]) @ xs)) =
             drop (length ((history h @ [a]) @ xs) - HISTORY_LIMIT) ((history h @ [a]) @ xs)"
  proof -
    have "length (drop k ((history h @ [a]) @ xs)) - HISTORY_LIMIT + k =
          length ((history h @ [a]) @ xs) - HISTORY_LIMIT"
      unfolding k_def by (simp add: HISTORY_LIMIT_def)
    then show ?thesis by (simp only: drop_drop)
  qed
  finally show ?case using ih by simp
qed

text \<open>
  The two stacks together never hold more than the limit: this holds for the empty hook
  and is kept by each of the three callbacks, so every reachable past stack is within the
  capacity.
\<close>

lemma stacks_within_limit:
  assumes "length (history h) + length (redoStack h) \<le> HISTORY_LIMIT"
  shows "length (history (recordState a h)) + length (redoStack (recordState a h)) \<le> HISTORY_LIMIT"
    and "length (history (snd (undo a h))) + length (redoStack (snd (undo a h))) \<le> HISTORY_LIMIT"
    and "length (history (snd (redo a h))) + length (redoStack (snd (redo a h))) \<le> HISTORY_LIMIT"
  using assms
  by (auto simp: recordState_def undo_def redo_def Let_def HISTORY_LIMIT_def neq_Nil_conv)

text \<open>
  C3. Every \<open>recordState\<close> call leaves the redo stack empty, whatever it held before.
\<close>

theorem recordState_clears_redoStack:
  "redoStack (recordState s h) = []"
  by (simp add: recordState_def Let_def)

text \<open>
  C1. Start from any hook state whose past stack is within the capacity, as every
  reachable one is, and make any sequence of \<open>recordState\<close> calls. After every prefix of
  the sequence the past stack has at most 15 entries; at the end it is the last 15 entries
  of the old stack followed by the recorded snapshots, so the oldest go first; once 15 or
  more snapshots were recorded it is exactly the 15 most recent of them. \<open>recordState\<close>
  is a total function with no error result.
\<close>

theorem recordState_capacity:
  assumes "length (history h) \<le> HISTORY_LIMIT"
  shows "(\<forall>n. length (history (fold recordState (take n xs) h)) \<le> HISTORY_LIMIT) \<and>
         history (fold recordState xs h) =
           drop (length (history h @ xs) - HISTORY_LIMIT) (history h @ xs) \<and>
         (HISTORY_LIMIT \<le> length xs \<longrightarrow>
            length (history (fold recordState xs h)) = HISTORY_LIMIT \<and>
            history (fold recordState xs h) = drop (length xs - HISTORY_LIMIT) xs)"
proof (intro conjI allI impI)
  fix n
  show "length (history (fold recordState (take n xs) h)) \<le> HISTORY_LIMIT"
    using fold_recordState_last [OF assms, of "take n xs"] by blast
next
  show eq: "history (fold recordState xs h) =
           drop (length (history h @ xs) - HISTORY_LIMIT) (history h @ xs)"
    using fold_recordState_last [OF assms, of xs] by blast
  assume big: "HISTORY_LIMIT \<le> length xs"
  then have "length (history h @ xs) - HISTORY_LIMIT =
             length (history h) + (length xs - HISTORY_LIMIT)"
    by simp
  then show "history (fold recordState xs h) = drop (length xs - HISTORY_LIMIT) xs"
    using eq by (simp add: drop_append)
  then show "length (history (fold recordState xs h)) = HISTORY_LIMIT"
    using big by simp
qed

text \<open>Sixteen snapshots recorded into the empty hook: the first is gone, fifteen remain.\<close>

theorem recordState_capacity_witness:
  "length (history (initial_history :: nat canvas_history)) \<le> HISTORY_LIMIT \<and>
   history (fold recordState [1, 2, 3, 4, 5, 6, 7, 8, 9, 10, 11, 12, 13, 14, 15, 16::nat]
            initial_history) =
     [2, 3, 4, 5, 6, 7, 8, 9, 10, 11, 12, 13, 14, 15, 16]"
  using recordState_capacity
    [of "initial_history :: nat canvas_history"
        "[1, 2, 3, 4, 5, 6, 7, 8, 9, 10, 11, 12, 13, 14, 15, 16::nat]"]
  by (simp add: initial_history_def HISTORY_LIMIT_def)

text \<open>
  C2, as stated, quantifies over every hook state. With an empty past stack \<open>undo\<close> takes
  its guard and returns \<open>null\<close>; a \<open>redo\<close> after it does not give the snapshot back.
  First at the level of the hook, with \<open>None\<close> as the \<open>null\<close> that is passed on: the
  redo returns 7, not the current snapshot 2, and the stacks have changed. Then at the level
  of the two buttons: the layers after Undo, Redo are not the layers before.
\<close>

theorem undo_redo_roundtrip_counterexample:
  "undo (Some (2::nat)) \<lparr>history = [], redoStack = [Some 7]\<rparr> =
     (None, \<lparr>history = [], redoStack = [Some 7]\<rparr>) \<and>
   redo None \<lparr>history = [], redoStack = [Some (7::nat)]\<rparr> =
     (Some (Some 7), \<lparr>history = [None], redoStack = []\<rparr>) \<and>
   layers (handleRedo (handleUndo
     (initial_state\<lparr>hist := \<lparr>history = [],
        redoStack = [\<lparr>ident = 5, elems = [exampleLayer ''a'' 0 0 1 1]\<rparr>]\<rparr>\<rparr>))) \<noteq>
   layers (initial_state\<lparr>hist := \<lparr>history = [],
        redoStack = [\<lparr>ident = 5, elems = [exampleLayer ''a'' 0 0 1 1]\<rparr>]\<rparr>\<rparr>)"
  by (simp add: undo_def redo_def handleUndo_def handleRedo_def initial_state_def Let_def)

text \<open>
  C2, amended. When the past stack is not empty (\<open>canUndo\<close>), \<open>undo S\<close> returns its
  last entry, and \<open>redo\<close> of that entry right after returns \<open>S\<close> and puts both stacks
  back as they were. When the redo stack is not empty (\<open>canRedo\<close>), \<open>redo S\<close> followed
  by \<open>undo\<close> of the returned entry does the same. On an empty stack \<open>undo\<close>
  (\<open>redo\<close>) returns \<open>null\<close> and changes nothing.
\<close>

theorem undo_redo_roundtrip:
  "(canUndo h \<longrightarrow>
      fst (undo S h) = Some (last (history h)) \<and>
      redo (last (history h)) (snd (undo S h)) = (Some S, h)) \<and>
   (canRedo h \<longrightarrow>
      fst (redo S h) = Some (last (redoStack h)) \<and>
      undo (last (redoStack h)) (snd (redo S h)) = (Some S, h)) \<and>
   (\<not> canUndo h \<longrightarrow> undo S h = (None, h)) \<and>
   (\<not> canRedo h \<longrightarrow> redo S h = (None, h))"
  by (simp add: undo_def redo_def canUndo_def canRedo_def Let_def)

theorem undo_redo_roundtrip_witness:
  "canUndo \<lparr>history = [1, 2::nat], redoStack = [9]\<rparr> \<and>
   canRedo \<lparr>history = [1, 2::nat], redoStack = [9]\<rparr> \<and>
   fst (undo 3 \<lparr>history = [1, 2::nat], redoStack = [9]\<rparr>) = Some 2 \<and>
   redo 2 (snd (undo 3 \<lparr>history = [1, 2::nat], redoStack = [9]\<rparr>)) =
     (Some 3, \<lparr>history = [1, 2], redoStack = [9]\<rparr>) \<and>
   fst (redo 3 \<lparr>history = [1, 2::nat], redoStack = [9]\<rparr>) = Some 9 \<and>
   undo 9 (snd (redo 3 \<lparr>history = [1, 2::nat], redoStack = [9]\<rparr>)) =
     (Some 3, \<lparr>history = [1, 2], redoStack = [9]\<rparr>) \<and>
   \<not> canUndo (initial_history :: nat canvas_history) \<and>
   \<not> canRedo (initial_history :: nat canvas_history) \<and>
   undo (3::nat) initial_history = (None, initial_history) \<and>
   redo (3::nat) initial_history = (None, initial_history)"
  using undo_redo_roundtrip [of "\<lparr>history = [1, 2::nat], redoStack = [9]\<rparr>" 3]
    undo_redo_roundtrip [of "initial_history :: nat canvas_history" 3]
  by (simp add: canUndo_def canRedo_def initial_history_def)

section \<open>Properties of the pointer sessions\<close>

lemma selectedLayerId_setLayersNew [simp]: "selectedLayerId (setLayersNew ls s) = selectedLayerId s"
  and activeOperation_setLayersNew [simp]: "activeOperation (setLayersNew ls s) = activeOperation s"
  and interactionStartRef_setLayersNew [simp]:
    "interactionStartRef (setLayersNew ls s) = interactionStartRef s"
  and hist_setLayersNew [simp]: "hist (setLayersNew ls s) = hist s"
  and elems_setLayersNew [simp]: "elems (layers (setLayersNew ls s)) = ls"
  and ident_setLayersNew [simp]: "ident (layers (setLayersNew ls s)) = nextIdent s"
  and nextIdent_setLayersNew [simp]: "nextIdent (setLayersNew ls s) = Suc (nextIdent s)"
  by (simp_all add: setLayersNew_def)

lemma truthyId_Some: "truthyId v = Some sid \<longleftrightarrow> v = Some sid \<and> sid \<noteq> []"
  by (auto simp: truthyId_def split: option.splits)

lemma drag_move_elems:
  assumes "activeOperation s = Op_drag" and "truthyId (selectedLayerId s) = Some sid"
  shows "elems (layers (handleCanvasPointerMove canvasRef e s)) =
           map (\<lambda>layer. if layerId layer = sid
                          then dragLayer (interactionStartRef s)
                                 (clientX e - startX (interactionStartRef s))
                                 (clientY e - startY (interactionStartRef s)) layer
                          else layer)
               (elems (layers s))"
  using assms by (simp add: handleCanvasPointerMove_def Let_def)

lemma dragLayer_bounds:
  "x (dragLayer st dx dy l) =
     max (MIN_VISIBLE_PX - originalWidth l * scale l)
         (min (initialX st + dx) (CANVAS_SIZE - MIN_VISIBLE_PX))"
  "y (dragLayer st dx dy l) =
     max (MIN_VISIBLE_PX - originalHeight l * scale l)
         (min (initialY st + dy) (CANVAS_SIZE - MIN_VISIBLE_PX))"
  "originalWidth (dragLayer st dx dy l) = originalWidth l"
  "originalHeight (dragLayer st dx dy l) = originalHeight l"
  "scale (dragLayer st dx dy l) = scale l"
  by (simp_all add: dragLayer_def Let_def)

text \<open>
  C4, as stated, holds for every layer. The handler takes the lower bound last
  (\<open>Math.max(minX, Math.min(newX, maxX))\<close>), so when the footprint is below
  \<open>2 * MIN_VISIBLE_PX - CANVAS_SIZE = -520\<close> the lower bound lies above the upper one and
  wins. A project file is loaded without any check of its numbers, so a layer can have a
  negative scale: with width 100 and scale -10 the footprint is -1000, and any drag move
  puts the layer at \<open>x = 1040\<close>, beyond \<open>CANVAS_SIZE - MIN_VISIBLE_PX = 560\<close>.
\<close>

theorem drag_move_clamped_counterexample:
  "x (elems (layers (handleCanvasPointerMove None \<lparr>clientX = 200, clientY = 200\<rparr>
        (dragState (- 10)))) ! 0) = 1040 \<and>
   \<not> (1040 \<le> CANVAS_SIZE - MIN_VISIBLE_PX)"
  by (simp add: dragState_def oneLayerState_def handleLayerPointerDown_def handleCanvasPointerMove_def
        truthyId_def exampleLayer_def initial_state_def dragLayer_def Let_def
        CANVAS_SIZE_def MIN_VISIBLE_PX_def)

text \<open>
  C4, amended. Take a pointer-move in a drag session whose selected id is a non-empty
  string, and a layer with that id, of footprint \<open>w\<close> by \<open>h\<close>. The move leaves the
  footprint as it is and sets \<open>x\<close> to the session's start position plus the pointer delta,
  cut off above at \<open>CANVAS_SIZE - MIN_VISIBLE_PX\<close> and then below at
  \<open>MIN_VISIBLE_PX - w\<close>. So \<open>MIN_VISIBLE_PX - w \<le> x\<close> and \<open>MIN_VISIBLE_PX \<le> x + w\<close>
  always, and \<open>x \<le> CANVAS_SIZE - MIN_VISIBLE_PX\<close> whenever
  \<open>MIN_VISIBLE_PX - w \<le> CANVAS_SIZE - MIN_VISIBLE_PX\<close>, in particular for every footprint
  that is not negative; the same for \<open>y\<close> and \<open>h\<close>.
\<close>

theorem drag_move_clamped:
  assumes "activeOperation s = Op_drag"
    and "selectedLayerId s = Some sid" and "sid \<noteq> []"
    and "i < length (elems (layers s))"
    and "layerId (elems (layers s) ! i) = sid"
  shows "let l = elems (layers s) ! i;
             l' = elems (layers (handleCanvasPointerMove canvasRef e s)) ! i;
             w = originalWidth l * scale l;
             h = originalHeight l * scale l;
             st = interactionStartRef s
         in originalWidth l' * scale l' = w \<and> originalHeight l' * scale l' = h \<and>
            x l' = max (MIN_VISIBLE_PX - w)
                       (min (initialX st + (clientX e - startX st)) (CANVAS_SIZE - MIN_VISIBLE_PX)) \<and>
            y l' = max (MIN_VISIBLE_PX - h)
                       (min (initialY st + (clientY e - startY st)) (CANVAS_SIZE - MIN_VISIBLE_PX)) \<and>
            MIN_VISIBLE_PX - w \<le> x l' \<and> MIN_VISIBLE_PX \<le> x l' + w \<and>
            MIN_VISIBLE_PX - h \<le> y l' \<and> MIN_VISIBLE_PX \<le> y l' + h \<and>
            (MIN_VISIBLE_PX - w \<le> CANVAS_SIZE - MIN_VISIBLE_PX \<longrightarrow> x l' \<le> CANVAS_SIZE - MIN_VISIBLE_PX) \<and>
            (MIN_VISIBLE_PX - h \<le> CANVAS_SIZE - MIN_VISIBLE_PX \<longrightarrow> y l' \<le> CANVAS_SIZE - MIN_VISIBLE_PX) \<and>
            (0 \<le> w \<longrightarrow> x l' \<le> CANVAS_SIZE - MIN_VISIBLE_PX) \<and>
            (0 \<le> h \<longrightarrow> y l' \<le> CANVAS_SIZE - MIN_VISIBLE_PX)"
proof -
  have t: "truthyId (selectedLayerId s) = Some sid"
    using assms(2,3) by (simp add: truthyId_Some)
  define st where "st = interactionStartRef s"
  define l where "l = elems (layers s) ! i"
  have l': "elems (layers (handleCanvasPointerMove canvasRef e s)) ! i =
            dragLayer st (clientX e - startX st) (clientY e - startY st) l"
    using assms(4,5) by (simp add: drag_move_elems [OF assms(1) t] st_def l_def)
  have c: "MIN_VISIBLE_PX \<le> CANVAS_SIZE - MIN_VISIBLE_PX"
    by (simp add: MIN_VISIBLE_PX_def CANVAS_SIZE_def)
  show ?thesis
    unfolding Let_def l' [unfolded st_def l_def] dragLayer_bounds
    using c by (auto simp: max_def min_def)
qed

text \<open>
  The scenario of the specification: a 100 by 100 layer at (100, 100), pointer moved by
  (-500, -500), ends at (-60, -60).
\<close>

theorem drag_move_clamped_witness:
  "activeOperation (dragState 1) = Op_drag \<and>
   selectedLayerId (dragState 1) = Some ''a'' \<and> ''a'' \<noteq> [] \<and>
   0 < length (elems (layers (dragState 1))) \<and>
   layerId (elems (layers (dragState 1)) ! 0) = ''a'' \<and>
   x (elems (layers (handleCanvasPointerMove None \<lparr>clientX = 200, clientY = 200\<rparr>
        (dragState 1))) ! 0) = - 60 \<and>
   y (elems (layers (handleCanvasPointerMove None \<lparr>clientX = 200, clientY = 200\<rparr>
        (dragState 1))) ! 0) = - 60"
proof -
  have a: "activeOperation (dragState 1) = Op_drag"
    and b: "selectedLayerId (dragState 1) = Some ''a''"
    and c: "''a'' \<noteq> []"
    and d: "0 < length (elems (layers (dragState 1)))"
    and e: "layerId (elems (layers (dragState 1)) ! 0) = ''a''"
    by (simp_all add: dragState_def oneLayerState_def handleLayerPointerDown_def exampleLayer_def initial_state_def)
  have vals: "elems (layers (dragState 1)) ! 0 = exampleLayer ''a'' 100 100 1 1"
    "interactionStartRef (dragState 1) =
       \<lparr>startX = 700, startY = 700, initialX = 100, initialY = 100, initialScale = 1,
        initialDistance = 0, initialLayers = \<lparr>ident = 2, elems = [exampleLayer ''a'' 100 100 1 1]\<rparr>\<rparr>"
    by (simp_all add: dragState_def oneLayerState_def handleLayerPointerDown_def exampleLayer_def initial_state_def)
  show ?thesis
    using drag_move_clamped [OF a b c d e, of None "\<lparr>clientX = 200, clientY = 200\<rparr>"] a b d e
    by (simp add: Let_def vals exampleLayer_def CANVAS_SIZE_def MIN_VISIBLE_PX_def)
qed

lemma sqrt_examples: "sqrt 2500 = 50" "sqrt 625 = 25" "sqrt 10000 = 100"
  by (rule real_sqrt_unique, simp, simp)+

lemma runMoves_Nil [simp]: "runMoves [] s = s"
  by (simp add: runMoves_def)

lemma runMoves_Cons [simp]:
  "runMoves (m # ms) s = runMoves ms (handleCanvasPointerMove (fst m) (snd m) s)"
  by (simp add: runMoves_def split_def)

lemma move_keeps:
  "selectedLayerId (handleCanvasPointerMove r e s) = selectedLayerId s"
  "activeOperation (handleCanvasPointerMove r e s) = activeOperation s"
  "interactionStartRef (handleCanvasPointerMove r e s) = interactionStartRef s"
  "hist (handleCanvasPointerMove r e s) = hist s"
  by (simp_all add: handleCanvasPointerMove_def Let_def split: option.splits)

lemma runMoves_keeps:
  "selectedLayerId (runMoves ms s) = selectedLayerId s \<and>
   activeOperation (runMoves ms s) = activeOperation s \<and>
   interactionStartRef (runMoves ms s) = interactionStartRef s \<and>
   hist (runMoves ms s) = hist s"
  by (induction ms arbitrary: s) (simp_all add: move_keeps)

lemma resize_move_eq:
  assumes "activeOperation s = Op_resize"
  shows "handleCanvasPointerMove r e s =
     (case truthyId (selectedLayerId s) of
        None \<Rightarrow> s
      | Some sid \<Rightarrow>
         (case find (\<lambda>l. layerId l = sid) (elems (layers s)) of
            None \<Rightarrow> s
          | Some sel \<Rightarrow>
              if initialDistance (interactionStartRef s) > 0
              then setLayersNew
                     (map (\<lambda>layer. if layerId layer = sid
                            then layer\<lparr>scale := resizeScale (interactionStartRef s)
                                                   (getCanvasCoordinates r e) sel\<rparr>
                            else layer) (elems (layers s))) s
              else s))"
  using assms
  by (simp add: handleCanvasPointerMove_def Let_def resizeScale_def split: option.splits
        cong: if_cong)

lemma find_map_scale:
  "find (\<lambda>l. layerId l = sid)
        (map (\<lambda>layer. if layerId layer = sid then layer\<lparr>scale := v\<rparr> else layer) ls) =
   map_option (\<lambda>layer. layer\<lparr>scale := v\<rparr>) (find (\<lambda>l. layerId l = sid) ls)"
  by (induction ls) simp_all

lemma resize_down_facts:
  "activeOperation (handleResizePointerDown r e layer s) = Op_resize"
  "selectedLayerId (handleResizePointerDown r e layer s) = Some (layerId layer)"
  "layers (handleResizePointerDown r e layer s) = layers s"
  "hist (handleResizePointerDown r e layer s) = hist s"
  "nextIdent (handleResizePointerDown r e layer s) = nextIdent s"
  "initialLayers (interactionStartRef (handleResizePointerDown r e layer s)) = layers s"
  "initialScale (interactionStartRef (handleResizePointerDown r e layer s)) = scale layer"
  "initialDistance (interactionStartRef (handleResizePointerDown r e layer s)) =
     sqrt ((fst (getCanvasCoordinates r e) - x layer) * (fst (getCanvasCoordinates r e) - x layer) +
           (snd (getCanvasCoordinates r e) - y layer) * (snd (getCanvasCoordinates r e) - y layer))"
  by (simp_all add: handleResizePointerDown_def Let_def)

lemma resize_move_anchor:
  assumes "activeOperation s = Op_resize"
    and "find (\<lambda>l. layerId l = sid) (elems (layers s)) = Some sel"
    and "selectedLayerId s = Some sid"
  shows "\<exists>sel'. find (\<lambda>l. layerId l = sid) (elems (layers (handleCanvasPointerMove r e s))) =
                  Some sel' \<and> x sel' = x sel \<and> y sel' = y sel"
proof (cases "sid = []")
  case True
  then have "truthyId (selectedLayerId s) = None"
    using assms(3) by (simp add: truthyId_def)
  then have "handleCanvasPointerMove r e s = s"
    by (simp add: resize_move_eq [OF assms(1)])
  then show ?thesis using assms(2) by simp
next
  case False
  then have t: "truthyId (selectedLayerId s) = Some sid"
    using assms(3) by (simp add: truthyId_Some)
  show ?thesis
    by (simp add: resize_move_eq [OF assms(1)] t assms(2) find_map_scale)
qed

lemma resize_moves_anchor:
  assumes "activeOperation s = Op_resize"
    and "find (\<lambda>l. layerId l = sid) (elems (layers s)) = Some sel"
    and "selectedLayerId s = Some sid"
  shows "\<exists>sel'. find (\<lambda>l. layerId l = sid) (elems (layers (runMoves ms s))) = Some sel' \<and>
                x sel' = x sel \<and> y sel' = y sel"
  using assms
proof (induction ms arbitrary: s sel)
  case Nil
  then show ?case by simp
next
  case (Cons m ms)
  let ?s = "handleCanvasPointerMove (fst m) (snd m) s"
  obtain sel1 where s1: "find (\<lambda>l. layerId l = sid) (elems (layers ?s)) = Some sel1"
    and xy: "x sel1 = x sel" "y sel1 = y sel"
    using resize_move_anchor [OF Cons.prems] by blast
  have "activeOperation ?s = Op_resize" "selectedLayerId ?s = Some sid"
    using Cons.prems by (simp_all add: move_keeps)
  from Cons.IH [OF this(1) s1 this(2)] xy show ?case by simp
qed

lemma resize_moves_zero_distance:
  assumes "activeOperation s = Op_resize"
    and "\<not> initialDistance (interactionStartRef s) > 0"
  shows "runMoves ms s = s"
  using assms
proof (induction ms arbitrary: s)
  case Nil
  then show ?case by simp
next
  case (Cons m ms)
  have "handleCanvasPointerMove (fst m) (snd m) s = s"
    using Cons.prems(2) by (simp add: resize_move_eq [OF Cons.prems(1)] split: option.splits)
  then show ?case using Cons by simp
qed

lemma map_scale_all:
  assumes "l' \<in> set (map (\<lambda>l. if layerId l = sid then l\<lparr>scale := v\<rparr> else l) ls)"
    and "layerId l' = sid"
  shows "scale l' = v"
proof -
  from assms(1) obtain l
    where e: "l' = (if layerId l = sid then l\<lparr>scale := v\<rparr> else l)"
    unfolding set_map by (rule imageE)
  show ?thesis
  proof (cases "layerId l = sid")
    case True
    then have "l' = l\<lparr>scale := v\<rparr>" using e by (simp only: simp_thms if_True)
    then show ?thesis by simp
  next
    case False
    then have "l' = l" using e by (simp only: simp_thms if_False)
    then show ?thesis using assms(2) False by simp
  qed
qed

lemma map_scale_mem:
  assumes "sel \<in> set ls" and "layerId sel = sid"
  shows "sel\<lparr>scale := v\<rparr> \<in>
           set (map (\<lambda>l. if layerId l = sid then l\<lparr>scale := v\<rparr> else l) ls)"
proof -
  have "(\<lambda>l. if layerId l = sid then l\<lparr>scale := v\<rparr> else l) sel \<in>
          (\<lambda>l. if layerId l = sid then l\<lparr>scale := v\<rparr> else l) ` set ls"
    using assms(1) by (rule imageI)
  then show ?thesis using assms(2) by (simp only: set_map simp_thms if_True)
qed

text \<open>
  C5, as stated, is about every resize session. The move handler returns at once when the
  selected id is the empty string, and it looks the anchor layer up by id, which finds the
  first layer of that id. First a layer with id \<open>''\<close>: the handle is pressed at distance
  50 from the corner, and a move to distance 25 leaves the state as it was, the scale still
  1 and not 0.5. Then two layers of one id, the handle of the second pressed at distance 50
  from its corner: a move with the pointer where it was measures the distance 100 from the
  corner of the first layer and sets both scales to 2, not to 1.
\<close>

theorem resize_session_scale_counterexample:
  "initialDistance (interactionStartRef
     (handleResizePointerDown canvasAtOrigin \<lparr>clientX = 130, clientY = 140\<rparr>
        (exampleLayer [] 100 100 1 1) emptyIdState)) = 50 \<and>
   handleCanvasPointerMove canvasAtOrigin \<lparr>clientX = 115, clientY = 120\<rparr>
     (handleResizePointerDown canvasAtOrigin \<lparr>clientX = 130, clientY = 140\<rparr>
        (exampleLayer [] 100 100 1 1) emptyIdState) =
   handleResizePointerDown canvasAtOrigin \<lparr>clientX = 130, clientY = 140\<rparr>
     (exampleLayer [] 100 100 1 1) emptyIdState \<and>
   map scale (elems (layers
     (handleResizePointerDown canvasAtOrigin \<lparr>clientX = 130, clientY = 140\<rparr>
        (exampleLayer [] 100 100 1 1) emptyIdState))) = [1] \<and>
   initialDistance (interactionStartRef
     (handleResizePointerDown canvasAtOrigin \<lparr>clientX = 330, clientY = 340\<rparr>
        (exampleLayer ''a'' 300 300 1 2) twinLayerState)) = 50 \<and>
   map scale (elems (layers
     (handleCanvasPointerMove canvasAtOrigin \<lparr>clientX = 330, clientY = 340\<rparr>
        (handleResizePointerDown canvasAtOrigin \<lparr>clientX = 330, clientY = 340\<rparr>
           (exampleLayer ''a'' 300 300 1 2) twinLayerState)))) = [2, 2]"
  by (simp add: handleResizePointerDown_def handleCanvasPointerMove_def emptyIdState_def
        twinLayerState_def initial_state_def exampleLayer_def canvasAtOrigin_def
        getCanvasCoordinates_def truthyId_def Let_def sqrt_examples)

text \<open>
  C5, amended. A resize session opens with pointer-down on the handle of a layer whose id
  is a non-empty string and which is the first layer of that id on the canvas. The session
  stores the layer's scale as start scale and, as start distance, the distance from the
  layer's top-left corner to the pointer in canvas coordinates. After any number of earlier
  moves of the session, a further move gives every layer with the selected id the scale
  \<open>max 0.1 (startScale * (currentDistance / startDistance))\<close> when the start distance is
  positive, the current distance being measured from the same corner; and when the start
  distance is zero, the state after any moves is the state right after pointer-down.
\<close>

theorem resize_session_scale:
  assumes "find (\<lambda>l. layerId l = layerId layer) (elems (layers s0)) = Some layer"
    and "layerId layer \<noteq> []"
  shows "let s1 = handleResizePointerDown canvasRef0 e0 layer s0;
             c0 = getCanvasCoordinates canvasRef0 e0;
             startDistance = sqrt ((fst c0 - x layer) * (fst c0 - x layer) +
                                   (snd c0 - y layer) * (snd c0 - y layer));
             s3 = handleCanvasPointerMove canvasRef e (runMoves ms s1);
             c = getCanvasCoordinates canvasRef e;
             currentDistance = sqrt ((fst c - x layer) * (fst c - x layer) +
                                     (snd c - y layer) * (snd c - y layer))
         in initialScale (interactionStartRef s1) = scale layer \<and>
            initialDistance (interactionStartRef s1) = startDistance \<and>
            0 \<le> startDistance \<and>
            (startDistance > 0 \<longrightarrow>
               (\<exists>l' \<in> set (elems (layers s3)). layerId l' = layerId layer) \<and>
               (\<forall>l' \<in> set (elems (layers s3)). layerId l' = layerId layer \<longrightarrow>
                  scale l' = max (1 / 10) (scale layer * (currentDistance / startDistance)))) \<and>
            (startDistance = 0 \<longrightarrow> s3 = s1)"
proof -
  define s1 where "s1 = handleResizePointerDown canvasRef0 e0 layer s0"
  define sid where "sid = layerId layer"
  define d0 where "d0 = sqrt ((fst (getCanvasCoordinates canvasRef0 e0) - x layer) *
                               (fst (getCanvasCoordinates canvasRef0 e0) - x layer) +
                               (snd (getCanvasCoordinates canvasRef0 e0) - y layer) *
                               (snd (getCanvasCoordinates canvasRef0 e0) - y layer))"
  define s2 where "s2 = runMoves ms s1"
  define v where "v = max (1 / 10) (scale layer *
              (sqrt ((fst (getCanvasCoordinates canvasRef e) - x layer) *
                     (fst (getCanvasCoordinates canvasRef e) - x layer) +
                     (snd (getCanvasCoordinates canvasRef e) - y layer) *
                     (snd (getCanvasCoordinates canvasRef e) - y layer)) / d0))"
  have op1: "activeOperation s1 = Op_resize" and sel1: "selectedLayerId s1 = Some sid"
    and l1: "layers s1 = layers s0"
    and sc1: "initialScale (interactionStartRef s1) = scale layer"
    and id1: "initialDistance (interactionStartRef s1) = d0"
    by (simp_all add: s1_def sid_def d0_def resize_down_facts)
  have d0: "0 \<le> d0" by (simp add: d0_def)
  have keep: "activeOperation s2 = Op_resize" "selectedLayerId s2 = Some sid"
    "interactionStartRef s2 = interactionStartRef s1"
    using runMoves_keeps [of ms s1] op1 sel1 by (simp_all add: s2_def)
  have f1: "find (\<lambda>l. layerId l = sid) (elems (layers s1)) = Some layer"
    using assms(1) by (simp add: l1 sid_def)
  obtain sel where f2: "find (\<lambda>l. layerId l = sid) (elems (layers s2)) = Some sel"
    and xy: "x sel = x layer" "y sel = y layer"
    using resize_moves_anchor [OF op1 f1 sel1, of ms] unfolding s2_def by blast
  have t: "truthyId (selectedLayerId s2) = Some sid"
    using keep(2) assms(2) by (simp add: truthyId_Some sid_def)
  have rs: "resizeScale (interactionStartRef s1) (getCanvasCoordinates canvasRef e) sel = v"
    by (simp only: resizeScale_def sc1 id1 xy v_def)
  have mem: "sel \<in> set (elems (layers s2))" and selid: "layerId sel = sid"
    using f2 by (auto simp: find_Some_iff)
  have pos: "(\<exists>l' \<in> set (elems (layers (handleCanvasPointerMove canvasRef e s2))).
                layerId l' = sid) \<and>
             (\<forall>l' \<in> set (elems (layers (handleCanvasPointerMove canvasRef e s2))).
                layerId l' = sid \<longrightarrow> scale l' = v)" if "d0 > 0"
  proof -
    have eq: "elems (layers (handleCanvasPointerMove canvasRef e s2)) =
        map (\<lambda>l. if layerId l = sid then l\<lparr>scale := v\<rparr> else l) (elems (layers s2))"
      using that by (simp add: resize_move_eq [OF keep(1)] t f2 keep(3) id1 rs)
    have "sel\<lparr>scale := v\<rparr> \<in> set (elems (layers (handleCanvasPointerMove canvasRef e s2)))"
      unfolding eq using mem selid by (rule map_scale_mem)
    moreover have "layerId (sel\<lparr>scale := v\<rparr>) = sid" using selid by simp
    ultimately have "\<exists>l' \<in> set (elems (layers (handleCanvasPointerMove canvasRef e s2))).
                layerId l' = sid" by (rule bexI [rotated])
    moreover have "\<forall>l' \<in> set (elems (layers (handleCanvasPointerMove canvasRef e s2))).
                layerId l' = sid \<longrightarrow> scale l' = v"
      unfolding eq using map_scale_all by blast
    ultimately show ?thesis by blast
  qed
  have zero: "handleCanvasPointerMove canvasRef e s2 = s1" if "d0 = 0"
  proof -
    have nz: "\<not> initialDistance (interactionStartRef s1) > 0" using that by (simp add: id1)
    have "s2 = s1" unfolding s2_def by (rule resize_moves_zero_distance [OF op1 nz])
    moreover have "handleCanvasPointerMove canvasRef e s1 = s1"
      using nz by (simp add: resize_move_eq [OF op1] split: option.splits)
    ultimately show ?thesis by simp
  qed
  have "initialScale (interactionStartRef s1) = scale layer \<and>
        initialDistance (interactionStartRef s1) = d0 \<and> 0 \<le> d0 \<and>
        (d0 > 0 \<longrightarrow>
           (\<exists>l' \<in> set (elems (layers (handleCanvasPointerMove canvasRef e s2))).
                layerId l' = sid) \<and>
           (\<forall>l' \<in> set (elems (layers (handleCanvasPointerMove canvasRef e s2))).
                layerId l' = sid \<longrightarrow> scale l' = v)) \<and>
        (d0 = 0 \<longrightarrow> handleCanvasPointerMove canvasRef e s2 = s1)"
    using sc1 id1 d0 pos zero by blast
  then show ?thesis
    unfolding Let_def s1_def s2_def sid_def v_def d0_def .
qed

text \<open>
  The scenario of the specification: handle pressed at distance 50 from the corner with
  scale 1, an intermediate move out to distance 100, then a move to distance 25 gives scale
  0.5. Pressed exactly on the corner, the same moves change nothing.
\<close>

theorem resize_session_scale_witness:
  "find (\<lambda>l. layerId l = layerId (exampleLayer ''a'' 100 100 1 1))
        (elems (layers (oneLayerState 1))) = Some (exampleLayer ''a'' 100 100 1 1) \<and>
   layerId (exampleLayer ''a'' 100 100 1 1) \<noteq> [] \<and>
   elems (layers
        (handleCanvasPointerMove canvasAtOrigin \<lparr>clientX = 115, clientY = 120\<rparr>
          (runMoves [(canvasAtOrigin, \<lparr>clientX = 160, clientY = 180\<rparr>)]
            (handleResizePointerDown canvasAtOrigin \<lparr>clientX = 130, clientY = 140\<rparr>
               (exampleLayer ''a'' 100 100 1 1) (oneLayerState 1))))) =
     [exampleLayer ''a'' 100 100 (1 / 2) 1] \<and>
   handleCanvasPointerMove canvasAtOrigin \<lparr>clientX = 115, clientY = 120\<rparr>
     (runMoves [(canvasAtOrigin, \<lparr>clientX = 160, clientY = 180\<rparr>)]
        (handleResizePointerDown canvasAtOrigin \<lparr>clientX = 100, clientY = 100\<rparr>
           (exampleLayer ''a'' 100 100 1 1) (oneLayerState 1))) =
   handleResizePointerDown canvasAtOrigin \<lparr>clientX = 100, clientY = 100\<rparr>
     (exampleLayer ''a'' 100 100 1 1) (oneLayerState 1)"
proof -
  have h1: "find (\<lambda>l. layerId l = layerId (exampleLayer ''a'' 100 100 1 1))
        (elems (layers (oneLayerState 1))) = Some (exampleLayer ''a'' 100 100 1 1)"
    by (simp add: oneLayerState_def exampleLayer_def)
  have h2: "layerId (exampleLayer ''a'' 100 100 1 1) \<noteq> []"
    by (simp add: exampleLayer_def)
  have xy: "x (exampleLayer ''a'' 100 100 1 1) = 100" "y (exampleLayer ''a'' 100 100 1 1) = 100"
    by (simp_all add: exampleLayer_def)
  note a = resize_session_scale [OF h1 h2, where ?canvasRef0.0 = canvasAtOrigin
      and ?e0.0 = "\<lparr>clientX = 130, clientY = 140\<rparr>" and canvasRef = canvasAtOrigin
      and e = "\<lparr>clientX = 115, clientY = 120\<rparr>"
      and ms = "[(canvasAtOrigin, \<lparr>clientX = 160, clientY = 180\<rparr>)]"]
  note b = resize_session_scale [OF h1 h2, where ?canvasRef0.0 = canvasAtOrigin
      and ?e0.0 = "\<lparr>clientX = 100, clientY = 100\<rparr>" and canvasRef = canvasAtOrigin
      and e = "\<lparr>clientX = 115, clientY = 120\<rparr>"
      and ms = "[(canvasAtOrigin, \<lparr>clientX = 160, clientY = 180\<rparr>)]"]
  have a': "elems (layers
        (handleCanvasPointerMove canvasAtOrigin \<lparr>clientX = 115, clientY = 120\<rparr>
          (runMoves [(canvasAtOrigin, \<lparr>clientX = 160, clientY = 180\<rparr>)]
            (handleResizePointerDown canvasAtOrigin \<lparr>clientX = 130, clientY = 140\<rparr>
               (exampleLayer ''a'' 100 100 1 1) (oneLayerState 1))))) =
     [exampleLayer ''a'' 100 100 (1 / 2) 1]"
    using a
    by (simp add: handleResizePointerDown_def handleCanvasPointerMove_def oneLayerState_def
          initial_state_def exampleLayer_def canvasAtOrigin_def getCanvasCoordinates_def
          truthyId_def Let_def sqrt_examples)
  have b': "handleCanvasPointerMove canvasAtOrigin \<lparr>clientX = 115, clientY = 120\<rparr>
     (runMoves [(canvasAtOrigin, \<lparr>clientX = 160, clientY = 180\<rparr>)]
        (handleResizePointerDown canvasAtOrigin \<lparr>clientX = 100, clientY = 100\<rparr>
           (exampleLayer ''a'' 100 100 1 1) (oneLayerState 1))) =
   handleResizePointerDown canvasAtOrigin \<lparr>clientX = 100, clientY = 100\<rparr>
     (exampleLayer ''a'' 100 100 1 1) (oneLayerState 1)"
    using b by (simp add: Let_def getCanvasCoordinates_def canvasAtOrigin_def xy)
  from h1 h2 a' b' show ?thesis by (intro conjI)
qed



lemma move_layers_fresh:
  "layers (handleCanvasPointerMove r e s) = layers s \<and>
     nextIdent (handleCanvasPointerMove r e s) = nextIdent s \<or>
   ident (layers (handleCanvasPointerMove r e s)) = nextIdent s \<and>
     nextIdent (handleCanvasPointerMove r e s) = Suc (nextIdent s)"
  by (simp add: handleCanvasPointerMove_def Let_def split: option.splits)

lemma drag_move_fresh:
  assumes "activeOperation s = Op_drag" and "truthyId (selectedLayerId s) = Some sid"
  shows "ident (layers (handleCanvasPointerMove r e s)) = nextIdent s \<and>
         nextIdent (handleCanvasPointerMove r e s) = Suc (nextIdent s)"
  using assms by (simp add: handleCanvasPointerMove_def Let_def)

lemma ident_chain:
  fixes L0 L1 L2 :: layer_array
  assumes "L2 = L1 \<or> ident L1 < ident L2" and "L1 = L0 \<or> ident L0 < ident L1"
  shows "L2 = L0 \<or> ident L0 < ident L2"
proof (cases "L2 = L1")
  case True
  then show ?thesis using assms(2) by (simp only:)
next
  case False
  then have lt: "ident L1 < ident L2" using assms(1) by (simp only: simp_thms)
  show ?thesis
  proof (cases "L1 = L0")
    case True
    then show ?thesis using lt by (simp only: simp_thms)
  next
    case False
    then have "ident L0 < ident L1" using assms(2) by (simp only: simp_thms)
    then have "ident L0 < ident L2" using lt by (rule less_trans)
    then show ?thesis by (rule disjI2)
  qed
qed

lemma runMoves_ident:
  assumes "ident (layers s) < nextIdent s"
  shows "(layers (runMoves ms s) = layers s \<or> ident (layers s) < ident (layers (runMoves ms s))) \<and>
         ident (layers (runMoves ms s)) < nextIdent (runMoves ms s)"
  using assms
proof (induction ms arbitrary: s)
  case Nil
  then show ?case by simp
next
  case (Cons m ms)
  let ?s = "handleCanvasPointerMove (fst m) (snd m) s"
  have step: "layers ?s = layers s \<and> nextIdent ?s = nextIdent s \<or>
              ident (layers ?s) = nextIdent s \<and> nextIdent ?s = Suc (nextIdent s)"
    by (rule move_layers_fresh)
  have inv: "ident (layers ?s) < nextIdent ?s"
    using step
  proof (elim disjE conjE)
    assume e: "layers ?s = layers s" and n: "nextIdent ?s = nextIdent s"
    from e have "ident (layers ?s) = ident (layers s)" by (rule arg_cong)
    then show ?thesis using n Cons.prems by linarith
  next
    assume "ident (layers ?s) = nextIdent s" and "nextIdent ?s = Suc (nextIdent s)"
    then show ?thesis by linarith
  qed
  have mono: "layers ?s = layers s \<or> ident (layers s) < ident (layers ?s)"
    using step
  proof (elim disjE conjE)
    assume "layers ?s = layers s"
    then show ?thesis by (rule disjI1)
  next
    assume "ident (layers ?s) = nextIdent s"
    then have "ident (layers s) < ident (layers ?s)" using Cons.prems by linarith
    then show ?thesis by (rule disjI2)
  qed
  have ih: "(layers (runMoves ms ?s) = layers ?s \<or>
             ident (layers ?s) < ident (layers (runMoves ms ?s))) \<and>
            ident (layers (runMoves ms ?s)) < nextIdent (runMoves ms ?s)"
    using inv by (rule Cons.IH)
  have "layers (runMoves ms ?s) = layers s \<or> ident (layers s) < ident (layers (runMoves ms ?s))"
    using ih [THEN conjunct1] mono by (rule ident_chain)
  then show ?case using ih by (simp only: runMoves_Cons simp_thms)
qed

lemma last_history_recordState:
  "history (recordState a h) \<noteq> [] \<and> last (history (recordState a h)) = a"
proof (cases "length (history h) < HISTORY_LIMIT")
  case True
  then show ?thesis by (simp add: history_recordState)
next
  case False
  then have "history h \<noteq> []" by (auto simp: HISTORY_LIMIT_def)
  then have "tl (history h @ [a]) = tl (history h) @ [a]" by simp
  then show ?thesis using False by (simp add: history_recordState)
qed

lemma layers_handleUndo:
  assumes "history (hist s) \<noteq> []"
  shows "layers (handleUndo s) = last (history (hist s))"
  using assms by (simp add: handleUndo_def undo_def Let_def split: option.splits)

lemma drag_down_facts:
  "activeOperation (handleLayerPointerDown e layer s) = Op_drag"
  "selectedLayerId (handleLayerPointerDown e layer s) = Some (layerId layer)"
  "layers (handleLayerPointerDown e layer s) = layers s"
  "hist (handleLayerPointerDown e layer s) = hist s"
  "nextIdent (handleLayerPointerDown e layer s) = nextIdent s"
  "initialLayers (interactionStartRef (handleLayerPointerDown e layer s)) = layers s"
  by (simp_all add: handleLayerPointerDown_def)

lemma pointerUp_facts:
  "layers (handleCanvasPointerUp s) = layers s"
  "activeOperation (handleCanvasPointerUp s) = Op_none"
  "hist (handleCanvasPointerUp s) =
     (if activeOperation s \<noteq> Op_none \<and>
         ident (initialLayers (interactionStartRef s)) \<noteq> ident (layers s)
      then recordState (initialLayers (interactionStartRef s)) (hist s) else hist s)"
  "activeOperation s = Op_none \<Longrightarrow> handleCanvasPointerUp s = s"
  by (simp_all add: handleCanvasPointerUp_def Let_def)

text \<open>
  C6, as stated, has nothing recorded when nothing changed. The exit handler compares the
  live array with the pre-session array by identity, and every drag move stores a newly
  built array. A drag whose only move has the pointer where it was pressed leaves the
  layer at (100, 100) as it was, and the exit still records a snapshot.
\<close>

theorem gesture_records_once_counterexample:
  "elems (layers (runMoves [(canvasAtOrigin, \<lparr>clientX = 700, clientY = 700\<rparr>)] (dragState 1))) =
     elems (layers (oneLayerState 1)) \<and>
   history (hist (oneLayerState 1)) = [] \<and>
   history (hist (handleCanvasPointerUp
     (runMoves [(canvasAtOrigin, \<lparr>clientX = 700, clientY = 700\<rparr>)] (dragState 1)))) =
     [\<lparr>ident = 2, elems = [exampleLayer ''a'' 100 100 1 1]\<rparr>]"
  by (simp add: runMoves_def dragState_def oneLayerState_def handleLayerPointerDown_def
        handleCanvasPointerMove_def handleCanvasPointerUp_def dragLayer_def truthyId_def
        initial_state_def initial_history_def exampleLayer_def recordState_def
        HISTORY_LIMIT_def CANVAS_SIZE_def MIN_VISIBLE_PX_def Let_def)

text \<open>
  C6, amended. A gesture is a pointer-down on a layer body or on a resize handle, any list
  of pointer-moves, and the pointer-up (or pointer-leave) that ends it; arrays are compared
  by identity, as \<open>!==\<close> does, and the state is one in which the identity of the live
  array has been handed out already. The moves record nothing, and the start record keeps
  the array of pointer-down. On exit the history is the old one with the pre-session
  array recorded once if the live array is another array object, and the old one unchanged
  if it is the same object; in the first case a single Undo brings the pre-session array
  back, in the second the layers are those of pointer-down. A second exit event right after
  changes nothing. With no move at all nothing is recorded; a drag on a layer with a
  non-empty id and at least one move records exactly the one snapshot, whether or not the
  moves changed the value of any layer, and so does a resize with at least one move on a
  layer that has a non-empty id, is on the canvas and was pressed at a positive distance
  from its corner.
\<close>

theorem gesture_records_once:
  assumes "ident (layers s) < nextIdent s"
    and "down = handleLayerPointerDown e0 layer \<or>
         down = handleResizePointerDown canvasRef0 e0 layer"
  shows "let s2 = runMoves ms (down s);
             s3 = handleCanvasPointerUp s2
         in hist s2 = hist s \<and>
            initialLayers (interactionStartRef s2) = layers s \<and>
            hist s3 = (if ident (layers s2) \<noteq> ident (layers s)
                       then recordState (layers s) (hist s) else hist s) \<and>
            (ident (layers s2) = ident (layers s) \<longrightarrow> layers s2 = layers s) \<and>
            (ident (layers s2) \<noteq> ident (layers s) \<longrightarrow> layers (handleUndo s3) = layers s) \<and>
            layers s3 = layers s2 \<and> activeOperation s3 = Op_none \<and>
            handleCanvasPointerUp s3 = s3 \<and>
            (ms = [] \<longrightarrow> hist s3 = hist s) \<and>
            (down = handleLayerPointerDown e0 layer \<and> layerId layer \<noteq> [] \<and> ms \<noteq> [] \<longrightarrow>
               hist s3 = recordState (layers s) (hist s)) \<and>
            (down = handleResizePointerDown canvasRef0 e0 layer \<and> layerId layer \<noteq> [] \<and>
             find (\<lambda>l. layerId l = layerId layer) (elems (layers s)) \<noteq> None \<and>
             0 < initialDistance (interactionStartRef (down s)) \<and> ms \<noteq> [] \<longrightarrow>
               hist s3 = recordState (layers s) (hist s))"
proof -
  define s1 where "s1 = down s"
  define s2 where "s2 = runMoves ms s1"
  define s3 where "s3 = handleCanvasPointerUp s2"
  have d: "activeOperation s1 \<noteq> Op_none" "layers s1 = layers s" "hist s1 = hist s"
    "nextIdent s1 = nextIdent s" "initialLayers (interactionStartRef s1) = layers s"
  proof -
    from assms(2) show "activeOperation s1 \<noteq> Op_none" "layers s1 = layers s" "hist s1 = hist s"
      "nextIdent s1 = nextIdent s" "initialLayers (interactionStartRef s1) = layers s"
      unfolding s1_def
      by (elim disjE; simp only: drag_down_facts resize_down_facts operation.simps simp_thms)+
  qed
  have k: "activeOperation s2 = activeOperation s1"
    "interactionStartRef s2 = interactionStartRef s1" "hist s2 = hist s1"
    using runMoves_keeps [of ms s1] by (simp_all add: s2_def)
  have inv1: "ident (layers s1) < nextIdent s1" using assms(1) d by simp
  have idn: "layers s2 = layers s \<or> ident (layers s) < ident (layers s2)"
    using runMoves_ident [OF inv1, of ms] d(2) by (simp add: s2_def)
  have h2: "hist s2 = hist s" using k d by simp
  have i2: "initialLayers (interactionStartRef s2) = layers s" using k d by simp
  have h3: "hist s3 = (if ident (layers s2) \<noteq> ident (layers s)
                       then recordState (layers s) (hist s) else hist s)"
    using d(1) by (simp add: s3_def pointerUp_facts k d)
  have same: "ident (layers s2) = ident (layers s) \<longrightarrow> layers s2 = layers s"
  proof
    assume e: "ident (layers s2) = ident (layers s)"
    then have "\<not> ident (layers s) < ident (layers s2)" by linarith
    then show "layers s2 = layers s" using idn by (simp only: simp_thms)
  qed
  have un: "ident (layers s2) \<noteq> ident (layers s) \<longrightarrow> layers (handleUndo s3) = layers s"
  proof
    assume "ident (layers s2) \<noteq> ident (layers s)"
    then have "hist s3 = recordState (layers s) (hist s)" using h3 by simp
    then show "layers (handleUndo s3) = layers s"
      using last_history_recordState [of "layers s" "hist s"] by (simp add: layers_handleUndo)
  qed
  have l3: "layers s3 = layers s2" "activeOperation s3 = Op_none"
    by (simp_all add: s3_def pointerUp_facts)
  have again: "handleCanvasPointerUp s3 = s3"
    using l3(2) by (rule pointerUp_facts(4))
  have none: "ms = [] \<longrightarrow> hist s3 = hist s"
  proof
    assume "ms = []"
    then have "s2 = s1" by (simp add: s2_def)
    then have "ident (layers s2) = ident (layers s)" using d(2) by (simp only:)
    then show "hist s3 = hist s" using h3 by (simp only: simp_thms if_False)
  qed
  have rec: "hist s3 = recordState (layers s) (hist s)"
    if ms: "ms = m # ms'"
      and f: "ident (layers (handleCanvasPointerMove (fst m) (snd m) s1)) = nextIdent s1"
             "nextIdent (handleCanvasPointerMove (fst m) (snd m) s1) = Suc (nextIdent s1)"
    for m ms'
  proof -
    let ?s = "handleCanvasPointerMove (fst m) (snd m) s1"
    have inv: "ident (layers ?s) < nextIdent ?s" using f by simp
    have c1: "layers (runMoves ms' ?s) = layers ?s \<or>
          ident (layers ?s) < ident (layers (runMoves ms' ?s))"
      using runMoves_ident [OF inv, of ms'] by (rule conjunct1)
    have s2e: "s2 = runMoves ms' ?s" by (simp add: s2_def ms)
    have c2: "ident (layers s) < ident (layers ?s)" using f(1) assms(1) d(4) by linarith
    have "ident (layers s) < ident (layers (runMoves ms' ?s))"
    proof (cases "layers (runMoves ms' ?s) = layers ?s")
      case True
      then show ?thesis using c2 by (simp only:)
    next
      case False
      then have "ident (layers ?s) < ident (layers (runMoves ms' ?s))"
        using c1 by (simp only: simp_thms)
      with c2 show ?thesis by (rule less_trans)
    qed
    then have "ident (layers s2) \<noteq> ident (layers s)" unfolding s2e by linarith
    then show ?thesis using h3 by (simp only: simp_thms if_True)
  qed
  have drag: "down = handleLayerPointerDown e0 layer \<and> layerId layer \<noteq> [] \<and> ms \<noteq> [] \<longrightarrow>
               hist s3 = recordState (layers s) (hist s)"
  proof
    assume a: "down = handleLayerPointerDown e0 layer \<and> layerId layer \<noteq> [] \<and> ms \<noteq> []"
    then obtain m ms' where ms: "ms = m # ms'" by (cases ms) auto
    have op: "activeOperation s1 = Op_drag"
      and t: "truthyId (selectedLayerId s1) = Some (layerId layer)"
      using a by (simp_all add: s1_def drag_down_facts truthyId_Some)
    have "ident (layers (handleCanvasPointerMove (fst m) (snd m) s1)) = nextIdent s1"
      "nextIdent (handleCanvasPointerMove (fst m) (snd m) s1) = Suc (nextIdent s1)"
      using drag_move_fresh [OF op t] by simp_all
    with ms show "hist s3 = recordState (layers s) (hist s)" by (rule rec)
  qed
  have resize: "down = handleResizePointerDown canvasRef0 e0 layer \<and> layerId layer \<noteq> [] \<and>
             find (\<lambda>l. layerId l = layerId layer) (elems (layers s)) \<noteq> None \<and>
             0 < initialDistance (interactionStartRef (down s)) \<and> ms \<noteq> [] \<longrightarrow>
               hist s3 = recordState (layers s) (hist s)"
  proof
    assume a: "down = handleResizePointerDown canvasRef0 e0 layer \<and> layerId layer \<noteq> [] \<and>
             find (\<lambda>l. layerId l = layerId layer) (elems (layers s)) \<noteq> None \<and>
             0 < initialDistance (interactionStartRef (down s)) \<and> ms \<noteq> []"
    then obtain m ms' where ms: "ms = m # ms'" by (cases ms) auto
    from a obtain sel
      where fd: "find (\<lambda>l. layerId l = layerId layer) (elems (layers s1)) = Some sel"
      using d(2) by (auto simp only:)
    have op: "activeOperation s1 = Op_resize"
      and t: "truthyId (selectedLayerId s1) = Some (layerId layer)"
      using a by (simp_all add: s1_def resize_down_facts truthyId_Some)
    have pos: "0 < initialDistance (interactionStartRef s1)"
      using a unfolding s1_def by (elim conjE)
    have "ident (layers (handleCanvasPointerMove (fst m) (snd m) s1)) = nextIdent s1"
      "nextIdent (handleCanvasPointerMove (fst m) (snd m) s1) = Suc (nextIdent s1)"
      using pos by (simp_all add: resize_move_eq [OF op] t fd)
    with ms show "hist s3 = recordState (layers s) (hist s)" by (rule rec)
  qed
  have "hist s2 = hist s \<and>
        initialLayers (interactionStartRef s2) = layers s \<and>
        hist s3 = (if ident (layers s2) \<noteq> ident (layers s)
                       then recordState (layers s) (hist s) else hist s) \<and>
        (ident (layers s2) = ident (layers s) \<longrightarrow> layers s2 = layers s) \<and>
        (ident (layers s2) \<noteq> ident (layers s) \<longrightarrow> layers (handleUndo s3) = layers s) \<and>
        layers s3 = layers s2 \<and> activeOperation s3 = Op_none \<and>
        handleCanvasPointerUp s3 = s3 \<and>
        (ms = [] \<longrightarrow> hist s3 = hist s) \<and>
        (down = handleLayerPointerDown e0 layer \<and> layerId layer \<noteq> [] \<and> ms \<noteq> [] \<longrightarrow>
               hist s3 = recordState (layers s) (hist s)) \<and>
        (down = handleResizePointerDown canvasRef0 e0 layer \<and> layerId layer \<noteq> [] \<and>
             find (\<lambda>l. layerId l = layerId layer) (elems (layers s)) \<noteq> None \<and>
             0 < initialDistance (interactionStartRef s1) \<and> ms \<noteq> [] \<longrightarrow>
               hist s3 = recordState (layers s) (hist s))"
    using h2 i2 h3 same un l3 again none drag resize [unfolded s1_def [symmetric]]
    by (intro conjI)
  then show ?thesis
    unfolding Let_def s3_def s2_def s1_def .
qed

text \<open>
  A drag with two moves leaves one history entry, a press and release leaves none, and a
  resize with one move leaves one.
\<close>

theorem gesture_records_once_witness:
  "ident (layers (oneLayerState 1)) < nextIdent (oneLayerState 1) \<and>
   layerId (exampleLayer ''a'' 100 100 1 1) \<noteq> [] \<and>
   [\<lparr>clientX = 650, clientY = 650\<rparr>, \<lparr>clientX = 600, clientY = 640\<rparr>] \<noteq> [] \<and>
   history (hist (handleCanvasPointerUp
     (runMoves [(canvasAtOrigin, \<lparr>clientX = 650, clientY = 650\<rparr>),
                (canvasAtOrigin, \<lparr>clientX = 600, clientY = 640\<rparr>)]
        (handleLayerPointerDown \<lparr>clientX = 700, clientY = 700\<rparr>
           (exampleLayer ''a'' 100 100 1 1) (oneLayerState 1))))) =
     [\<lparr>ident = 2, elems = [exampleLayer ''a'' 100 100 1 1]\<rparr>] \<and>
   history (hist (handleCanvasPointerUp
     (runMoves []
        (handleLayerPointerDown \<lparr>clientX = 700, clientY = 700\<rparr>
           (exampleLayer ''a'' 100 100 1 1) (oneLayerState 1))))) = [] \<and>
   find (\<lambda>l. layerId l = layerId (exampleLayer ''a'' 100 100 1 1))
        (elems (layers (oneLayerState 1))) = Some (exampleLayer ''a'' 100 100 1 1) \<and>
   0 < initialDistance (interactionStartRef
         (handleResizePointerDown canvasAtOrigin \<lparr>clientX = 130, clientY = 140\<rparr>
            (exampleLayer ''a'' 100 100 1 1) (oneLayerState 1))) \<and>
   history (hist (handleCanvasPointerUp
     (runMoves [(canvasAtOrigin, \<lparr>clientX = 115, clientY = 120\<rparr>)]
        (handleResizePointerDown canvasAtOrigin \<lparr>clientX = 130, clientY = 140\<rparr>
           (exampleLayer ''a'' 100 100 1 1) (oneLayerState 1))))) =
     [\<lparr>ident = 2, elems = [exampleLayer ''a'' 100 100 1 1]\<rparr>]"
proof -
  have h: "ident (layers (oneLayerState 1)) < nextIdent (oneLayerState 1)"
    by (simp add: oneLayerState_def)
  have v: "layers (oneLayerState 1) = \<lparr>ident = 2, elems = [exampleLayer ''a'' 100 100 1 1]\<rparr>"
    "hist (oneLayerState 1) = initial_history"
    "layerId (exampleLayer ''a'' 100 100 1 1) \<noteq> []"
    by (simp_all add: oneLayerState_def initial_state_def exampleLayer_def)
  have r: "history (recordState a (initial_history :: layer_array canvas_history)) = [a]" for a
    by (simp add: recordState_def initial_history_def HISTORY_LIMIT_def)
  have e: "history (initial_history :: layer_array canvas_history) = []"
    by (simp add: initial_history_def)
  note a = gesture_records_once [OF h, where down = "handleLayerPointerDown \<lparr>clientX = 700, clientY = 700\<rparr>
           (exampleLayer ''a'' 100 100 1 1)" and ?e0.0 = "\<lparr>clientX = 700, clientY = 700\<rparr>"
           and layer = "exampleLayer ''a'' 100 100 1 1"
           and ms = "[(canvasAtOrigin, \<lparr>clientX = 650, clientY = 650\<rparr>),
                (canvasAtOrigin, \<lparr>clientX = 600, clientY = 640\<rparr>)]"]
  note b = gesture_records_once [OF h, where down = "handleLayerPointerDown \<lparr>clientX = 700, clientY = 700\<rparr>
           (exampleLayer ''a'' 100 100 1 1)" and ?e0.0 = "\<lparr>clientX = 700, clientY = 700\<rparr>"
           and layer = "exampleLayer ''a'' 100 100 1 1"
           and ms = "[]"]
  note c = gesture_records_once [OF h, where down = "handleResizePointerDown canvasAtOrigin
           \<lparr>clientX = 130, clientY = 140\<rparr> (exampleLayer ''a'' 100 100 1 1)"
           and ?canvasRef0.0 = canvasAtOrigin and ?e0.0 = "\<lparr>clientX = 130, clientY = 140\<rparr>"
           and layer = "exampleLayer ''a'' 100 100 1 1"
           and ms = "[(canvasAtOrigin, \<lparr>clientX = 115, clientY = 120\<rparr>)]"]
  show ?thesis
    using a b c h
    by (simp add: Let_def handleCanvasPointerUp_def handleCanvasPointerMove_def
          handleLayerPointerDown_def handleResizePointerDown_def oneLayerState_def
          initial_state_def truthyId_def exampleLayer_def canvasAtOrigin_def
          getCanvasCoordinates_def sqrt_examples r e)
qed

section \<open>Properties of the layer operations\<close>

lemma zIndex_renumber: "map zIndex (renumber ls) = map (\<lambda>i. real i + 1) [0..<length ls]"
proof -
  have "map zIndex (renumber ls) = map ((\<lambda>i. real i + 1) \<circ> fst) (enumerate 0 ls)"
    unfolding renumber_def map_map by (rule map_cong) (simp_all add: split_def)
  also have "\<dots> = map (\<lambda>i. real i + 1) (map fst (enumerate 0 ls))"
    by (simp only: map_map)
  also have "map fst (enumerate 0 ls) = [0..<length ls]"
    by (simp only: map_fst_enumerate add_0)
  finally show ?thesis .
qed

lemma length_renumber: "length (renumber ls) = length ls"
  by (simp add: renumber_def)

lemma denseZ_renumber: "denseZ (renumber ls)"
  by (simp only: denseZ_def zIndex_renumber length_renumber)

lemma findIndex_Some: "findIndex P ls = Some i \<Longrightarrow> i < length ls \<and> P (ls ! i)"
  by (induction ls arbitrary: i) (auto split: if_splits)

text \<open>
  Reordering a layer that is on the canvas renumbers all z-indices, also when the layer
  is already at the boundary and nothing is swapped.
\<close>

lemma reorderLayer_dense:
  assumes "findIndex (\<lambda>l. layerId l = i) (elems (layers s)) \<noteq> None"
  shows "denseZ (elems (layers (reorderLayer i dir s)))"
proof -
  from assms obtain k where "findIndex (\<lambda>l. layerId l = i) (elems (layers s)) = Some k"
    by blast
  then show ?thesis
    by (simp add: reorderLayer_def Let_def denseZ_renumber)
qed

text \<open>
  C7. \<open>removeLayer\<close> filters the array and keeps the z-indices of the remaining layers
  as they were. From three layers with z-indices 1, 2, 3, removing the first leaves 2, 3,
  which is not the dense sequence 1, 2. Removing the second too and then adding an image,
  which takes \<open>prev.length + 1\<close> as its z-index, gives 3, 2: the new layer is last in
  array order and below the old one in z-order.
\<close>

theorem removeLayer_breaks_dense_zIndex:
  "denseZ (elems (layers threeLayerState)) \<and>
   map zIndex (elems (layers (removeLayer ''a'' threeLayerState))) = [2, 3] \<and>
   \<not> denseZ (elems (layers (removeLayer ''a'' threeLayerState))) \<and>
   map zIndex (elems (layers
     (imageOnload ''data:image/png;base64,'' 200 200 (1 / 2) (1 / 2) ''d''
        (removeLayer ''b'' (removeLayer ''a'' threeLayerState))))) = [3, 2]"
  by (simp add: denseZ_def threeLayerState_def removeLayer_def imageOnload_def initial_state_def
        exampleLayer_def Let_def)

text \<open>
  C8. When an image of natural size \<open>w\<close> by \<open>h\<close> has loaded, and the two random numbers
  lie in the range of \<open>Math.random()\<close>, the new layer is appended with scale
  \<open>min 1 (250 / max w h)\<close> (1 for an image without extent), and its position is the
  canvas centre minus half the rendered footprint plus a jitter of \<open>(random - 1/2) * 40\<close>,
  one random number per axis, so within 20 units of the centred position on each axis.
\<close>

theorem imageOnload_scale_position:
  assumes "0 \<le> random1" and "random1 < 1" and "0 \<le> random2" and "random2 < 1"
  shows "let s' = imageOnload dataUrl w h random1 random2 newId s;
             l = last (elems (layers s'));
             fitScale = (if max w h = 0 then 1 else min 1 (250 / real (max w h)))
         in elems (layers s') = elems (layers s) @ [l] \<and>
            scale l = fitScale \<and>
            (0 < max w h \<longrightarrow> scale l = min 1 (250 / real (max w h))) \<and>
            x l = (CANVAS_SIZE / 2 - (real w * scale l) / 2) + (random1 - 1 / 2) * 40 \<and>
            y l = (CANVAS_SIZE / 2 - (real h * scale l) / 2) + (random2 - 1 / 2) * 40 \<and>
            \<bar>x l - (CANVAS_SIZE / 2 - (real w * scale l) / 2)\<bar> \<le> 20 \<and>
            \<bar>y l - (CANVAS_SIZE / 2 - (real h * scale l) / 2)\<bar> \<le> 20 \<and>
            originalWidth l = real w \<and> originalHeight l = real h \<and>
            zIndex l = real (length (elems (layers s))) + 1 \<and>
            selectedLayerId s' = Some newId"
proof -
  have j1: "\<bar>(random1 - 1 / 2) * 40\<bar> \<le> 20" using assms(1,2) by (simp add: abs_le_iff)
  have j2: "\<bar>(random2 - 1 / 2) * 40\<bar> \<le> 20" using assms(3,4) by (simp add: abs_le_iff)
  show ?thesis
    using j1 j2 by (simp add: imageOnload_def Let_def)
qed

text \<open>
  The scenario of the specification: one 200 by 200 image on the empty canvas gets scale 1
  and a position within 20 units of (200, 200); here (180, 210).
\<close>

theorem imageOnload_scale_position_witness:
  "(0::real) \<le> 0 \<and> (0::real) < 1 \<and> (0::real) \<le> 3 / 4 \<and> (3 / 4 :: real) < 1 \<and>
   (0::nat) < max 200 200 \<and>
   elems (layers (imageOnload ''data:image/png;base64,'' 200 200 0 (3 / 4) ''n'' initial_state)) =
     [\<lparr>layerId = ''n'', url = ''data:image/png;base64,'', x = 180, y = 210, scale = 1,
       rotation = 0, zIndex = 1, aspectRatio = 1, originalWidth = 200, originalHeight = 200\<rparr>]"
  using imageOnload_scale_position [of 0 "3 / 4" "''data:image/png;base64,''" 200 200 "''n''"
      initial_state]
  by (simp add: imageOnload_def initial_state_def Let_def CANVAS_SIZE_def)

section \<open>Properties of project loading\<close>

lemma loadProject_parsed:
  "loadProject (Loaded (Some parsed)) =
     (case layersProp parsed of
        Throws \<Rightarrow> Inl ParseFailure
      | Undefined \<Rightarrow> Inl InvalidStructure
      | Value v \<Rightarrow> if isArray v then Inr (arrayItems v) else Inl InvalidStructure)"
proof -
  have "isArray v \<Longrightarrow> truthy v" for v by (cases v) simp_all
  then show ?thesis
    by (auto simp: loadProject_def split: js_lookup.splits)
qed

lemma idProp_Throws: "idProp j = Throws \<longleftrightarrow> j = JNull"
  by (cases j) (simp_all split: option.splits)

lemma those_map_None:
  "a \<in> set xs \<Longrightarrow> f a = None \<Longrightarrow> those (map f xs) = None"
  by (induction xs) (auto split: option.splits)

lemma layersProp_Throws: "layersProp parsed = Throws \<longleftrightarrow> parsed = JNull"
  by (cases parsed) (simp_all split: option.splits)

text \<open>
  C9, as stated, has every array of values that are not layer-shaped rejected.
  \<open>loadProject\<close> tests \<open>Array.isArray\<close> only: a file whose \<open>layers\<close> is the array
  \<open>[1, "x"]\<close> is accepted and its array handed on.
\<close>

theorem loadProject_rejects_non_array_counterexample:
  "loadProject (Loaded (Some (JObject [(''version'', JString ''1.0''),
                                        (''layers'', JArray [JNumber 1, JString ''x''])]))) =
     Inr [JNumber 1, JString ''x''] \<and>
   \<not> layerShaped (JNumber 1) \<and> \<not> layerShaped (JString ''x'')"
  by (simp add: loadProject_def layerShaped_def layerOfJson_def)

text \<open>
  C9, amended. For a file that parses to a JSON value, \<open>loadProject\<close> fails with the
  structural error exactly when the value is not \<open>null\<close> and its \<open>layers\<close> property is
  missing or is not an array; an object without the key \<open>layers\<close> is rejected so, and an
  array is accepted whatever its elements are. A file that parses to \<open>null\<close>, and one
  that does not parse, fail with the parse error, an unreadable one with the read error.
  Whenever \<open>loadProject\<close> fails, \<open>handleLoadProject\<close> reports the error and leaves the
  layer array as it was, the history holding the snapshot recorded before the load. When
  \<open>loadProject\<close> accepts an array, an error is reported exactly when the array is not
  empty and its last element is \<open>null\<close>, and then the layer array has been replaced by
  the file's array before the error is reported.
\<close>

theorem loadProject_structural_error:
  "(loadProject (Loaded (Some parsed)) = Inl InvalidStructure \<longleftrightarrow>
      (case layersProp parsed of
         Throws \<Rightarrow> False | Undefined \<Rightarrow> True | Value v \<Rightarrow> \<not> isArray v)) \<and>
   (layersProp parsed = Throws \<longleftrightarrow> parsed = JNull) \<and>
   loadProject (Loaded (Some JNull)) = Inl ParseFailure \<and>
   loadProject (Loaded None) = Inl ParseFailure \<and>
   loadProject ReaderError = Inl ReadFailure \<and>
   (parsed = JObject kvs \<and> map_of kvs ''layers'' = None \<longrightarrow>
      loadProject (Loaded (Some parsed)) = Inl InvalidStructure) \<and>
   (layersProp parsed = Value (JArray items) \<longrightarrow>
      loadProject (Loaded (Some parsed)) = Inr items) \<and>
   (loadProject r = Inl err \<longrightarrow>
      handleLoadProject (Some r) rid tmsg s =
        Typed (generateError rid ''Load Failed'' (errorMessage err)
                 (s\<lparr>hist := recordState (layers s) (hist s)\<rparr>)) \<and>
      layers (otherCells (handleLoadProject (Some r) rid tmsg s)) = layers s \<and>
      hist (otherCells (handleLoadProject (Some r) rid tmsg s)) =
        recordState (layers s) (hist s) \<and>
      appError (otherCells (handleLoadProject (Some r) rid tmsg s)) =
        Some \<lparr>errorId = rid, message = ''Load Failed'', details = errorMessage err\<rparr>) \<and>
   (loadProject r = Inr loaded \<and> loaded \<noteq> [] \<and> last loaded = JNull \<longrightarrow>
      handleLoadProject (Some r) rid tmsg s =
        Untyped loaded Throws
          (generateError rid ''Load Failed'' tmsg
             (s\<lparr>hist := recordState (layers s) (hist s)\<rparr>))) \<and>
   (loadProject r = Inr loaded \<and> (loaded = [] \<or> last loaded \<noteq> JNull) \<longrightarrow>
      appError (otherCells (handleLoadProject (Some r) rid tmsg s)) = appError s)"
proof (intro conjI impI)
  show "(loadProject (Loaded (Some parsed)) = Inl InvalidStructure) =
        (case layersProp parsed of
           Throws \<Rightarrow> False | Undefined \<Rightarrow> True | Value v \<Rightarrow> \<not> isArray v)"
    by (simp add: loadProject_parsed split: js_lookup.splits)
  show "(layersProp parsed = Throws) = (parsed = JNull)"
    by (rule layersProp_Throws)
  show "loadProject (Loaded (Some JNull)) = Inl ParseFailure"
    "loadProject (Loaded None) = Inl ParseFailure"
    "loadProject ReaderError = Inl ReadFailure"
    by (simp_all add: loadProject_def)
next
  assume "parsed = JObject kvs \<and> map_of kvs ''layers'' = None"
  then show "loadProject (Loaded (Some parsed)) = Inl InvalidStructure"
    by (simp add: loadProject_parsed)
next
  assume "layersProp parsed = Value (JArray items)"
  then show "loadProject (Loaded (Some parsed)) = Inr items"
    by (simp add: loadProject_parsed)
next
  assume e: "loadProject r = Inl err"
  show h: "handleLoadProject (Some r) rid tmsg s =
        Typed (generateError rid ''Load Failed'' (errorMessage err)
                (s\<lparr>hist := recordState (layers s) (hist s)\<rparr>))"
    by (simp add: handleLoadProject_def e Let_def)
  show "layers (otherCells (handleLoadProject (Some r) rid tmsg s)) = layers s"
    by (simp add: h generateError_def otherCells_def)
  show "hist (otherCells (handleLoadProject (Some r) rid tmsg s)) =
          recordState (layers s) (hist s)"
    by (simp add: h generateError_def otherCells_def)
  show "appError (otherCells (handleLoadProject (Some r) rid tmsg s)) =
          Some \<lparr>errorId = rid, message = ''Load Failed'', details = errorMessage err\<rparr>"
    by (simp add: h generateError_def otherCells_def)
next
  assume a: "loadProject r = Inr loaded \<and> loaded \<noteq> [] \<and> last loaded = JNull"
  then have n: "layerOfJson (last loaded) = None" by (simp add: layerOfJson_def)
  have m: "last loaded \<in> set loaded" using a by (intro last_in_set) simp
  have "those (map layerOfJson loaded) = None"
    using m n by (rule those_map_None)
  then show "handleLoadProject (Some r) rid tmsg s =
        Untyped loaded Throws
          (generateError rid ''Load Failed'' tmsg
             (s\<lparr>hist := recordState (layers s) (hist s)\<rparr>))"
    using a by (simp add: handleLoadProject_def Let_def)
next
  assume a: "loadProject r = Inr loaded \<and> (loaded = [] \<or> last loaded \<noteq> JNull)"
  show "appError (otherCells (handleLoadProject (Some r) rid tmsg s)) = appError s"
  proof (cases "those (map layerOfJson loaded)")
    case (Some loadedLayers)
    then show ?thesis
      using a by (simp add: handleLoadProject_def Let_def otherCells_def setLayersNew_def)
  next
    case None
    then have ne: "loaded \<noteq> []" by auto
    then have "idProp (last loaded) \<noteq> Throws"
      using a by (simp add: idProp_Throws)
    then show ?thesis
      using a None
      by (simp add: handleLoadProject_def Let_def otherCells_def split: js_lookup.splits)
  qed
qed

text \<open>
  A project file without the key \<open>layers\<close> is rejected and the single layer on the
  canvas stays; a file whose array is \<open>[null]\<close> replaces the layers and then fails.
\<close>

theorem loadProject_structural_error_witness:
  "loadProject (Loaded (Some (JObject [(''version'', JString ''1.0'')]))) = Inl InvalidStructure \<and>
   map_of [(''version'', JString ''1.0'')] ''layers'' = None \<and>
   layersProp (JObject [(''layers'', JArray [JNull])]) = Value (JArray [JNull]) \<and>
   loadProject (Loaded (Some (JObject [(''layers'', JArray [JNull])]))) = Inr [JNull] \<and>
   layers (otherCells (handleLoadProject
              (Some (Loaded (Some (JObject [(''version'', JString ''1.0'')]))))
              ''ABC'' ''TypeError'' (oneLayerState 1))) = layers (oneLayerState 1) \<and>
   history (hist (otherCells (handleLoadProject
              (Some (Loaded (Some (JObject [(''version'', JString ''1.0'')]))))
              ''ABC'' ''TypeError'' (oneLayerState 1)))) = [layers (oneLayerState 1)] \<and>
   handleLoadProject (Some (Loaded (Some (JObject [(''layers'', JArray [JNull])]))))
       ''ABC'' ''TypeError'' (oneLayerState 1) =
     Untyped [JNull] Throws
       (generateError ''ABC'' ''Load Failed'' ''TypeError''
          ((oneLayerState 1)\<lparr>hist := recordState (layers (oneLayerState 1))
                                       (hist (oneLayerState 1))\<rparr>)) \<and>
   appError (otherCells (handleLoadProject
       (Some (Loaded (Some (JObject [(''layers'', JArray [JString ''x''])]))))
       ''ABC'' ''TypeError'' (oneLayerState 1))) = appError (oneLayerState 1)"
proof -
  have e: "loadProject (Loaded (Some (JObject [(''version'', JString ''1.0'')]))) =
           Inl InvalidStructure"
    "loadProject (Loaded (Some (JObject [(''layers'', JArray [JNull])]))) = Inr [JNull]"
    "loadProject (Loaded (Some (JObject [(''layers'', JArray [JString ''x''])]))) =
       Inr [JString ''x'']"
    by (simp_all add: loadProject_def)
  have r: "history (recordState a (hist (oneLayerState 1))) = [a]" for a
    by (simp add: recordState_def oneLayerState_def initial_state_def initial_history_def
          HISTORY_LIMIT_def)
  show ?thesis
    using loadProject_structural_error
        [where parsed = "JObject [(''version'', JString ''1.0'')]"
           and kvs = "[(''version'', JString ''1.0'')]"
           and r = "Loaded (Some (JObject [(''version'', JString ''1.0'')]))"
           and err = InvalidStructure and rid = "''ABC''" and tmsg = "''TypeError''"
           and s = "oneLayerState 1"]
      loadProject_structural_error
        [where parsed = "JObject [(''layers'', JArray [JNull])]" and items = "[JNull]"
           and r = "Loaded (Some (JObject [(''layers'', JArray [JNull])]))"
           and loaded = "[JNull]" and rid = "''ABC''" and tmsg = "''TypeError''"
           and s = "oneLayerState 1"]
      loadProject_structural_error
        [where r = "Loaded (Some (JObject [(''layers'', JArray [JString ''x''])]))"
           and loaded = "[JString ''x'']" and rid = "''ABC''" and tmsg = "''TypeError''"
           and s = "oneLayerState 1"]
    by (simp add: e r otherCells_def generateError_def)
qed

end
